theory Spec2Isabelle
  imports Main "HOL-Library.Word" "HOL-Library.AList"
begin

section \<open>Python text helpers used by the metadata record\<close>

text \<open>
  The metadata region holds ASCII text. A Python \<^verbatim>\<open>str\<close> made of ASCII characters
  and its UTF-8 encoding are the same sequence of bytes, and a HOL \<^typ>\<open>char\<close> is one
  byte, so both are modelled as \<^typ>\<open>string\<close>; \<^verbatim>\<open>bytes(s, "utf-8")\<close> and
  \<^verbatim>\<open>.decode("utf-8")\<close> are the identity on them.
\<close>

text \<open>
  \<^verbatim>\<open>numbers_sum(tot, n)\<close> of \<^verbatim>\<open>memory.py\<close>: \<^verbatim>\<open>tot\<close> split into \<^verbatim>\<open>n\<close> parts, the
  first \<^verbatim>\<open>tot % n\<close> parts one larger.
\<close>

definition numbers_sum :: "int \<Rightarrow> int \<Rightarrow> int list" where
  "numbers_sum tot n =
     (if tot \<le> 0 \<or> n \<le> 0 then []
      else let number = tot div n; remainder = tot mod n
           in replicate (nat remainder) (number + 1) @ replicate (nat (n - remainder)) number)"

text \<open>Python list indexing \<^verbatim>\<open>xs[i]\<close>: a negative index counts from the end, an index out
  of range raises \<^verbatim>\<open>IndexError\<close> (here \<open>None\<close>).\<close>

definition py_index :: "'a list \<Rightarrow> int \<Rightarrow> 'a option" where
  "py_index xs i =
     (let n = int (length xs); j = (if i < 0 then n + i else i)
      in if 0 \<le> j \<and> j < n then Some (xs ! nat j) else None)"

text \<open>\<^verbatim>\<open>s.ljust(width, fill)\<close>: pads on the right up to \<^verbatim>\<open>width\<close>; a longer string is
  returned as it is, never cut.\<close>

definition ljust :: "string \<Rightarrow> int \<Rightarrow> char \<Rightarrow> string" where
  "ljust s width fill = s @ replicate (nat (width - int (length s))) fill"

text \<open>\<^verbatim>\<open>sep.join(parts)\<close>.\<close>

fun py_join :: "string \<Rightarrow> string list \<Rightarrow> string" where
  "py_join sep [] = []"
| "py_join sep [p] = p"
| "py_join sep (p # q # ps) = p @ sep @ py_join sep (q # ps)"

text \<open>\<^verbatim>\<open>s.split(sep)\<close> for a separator of one character: the result is never empty, and
  two adjacent separators enclose an empty field.\<close>

fun py_split :: "char \<Rightarrow> string \<Rightarrow> string list" where
  "py_split sep [] = [[]]"
| "py_split sep (c # cs) =
     (if c = sep then [] # py_split sep cs
      else (case py_split sep cs of
              [] \<Rightarrow> [[c]]
            | p # ps \<Rightarrow> (c # p) # ps))"

text \<open>\<^verbatim>\<open>s.replace("*", "")\<close>.\<close>

definition remove_stars :: "string \<Rightarrow> string" where
  "remove_stars s = filter (\<lambda>c. c \<noteq> CHR ''*'') s"

text \<open>\<^verbatim>\<open>str(n)\<close> of a Python integer: decimal digits, a minus sign before a negative
  number.\<close>

definition digit_char :: "nat \<Rightarrow> char" where
  "digit_char d = ''0123456789'' ! d"

fun digits :: "nat \<Rightarrow> string" where
  "digits n = (if n < 10 then [digit_char n] else digits (n div 10) @ [digit_char (n mod 10)])"

declare digits.simps [simp del]

definition str_int :: "int \<Rightarrow> string" where
  "str_int n = (if n < 0 then CHR ''-'' # digits (nat (- n)) else digits (nat n))"

text \<open>
  \<^verbatim>\<open>int(s)\<close> of a Python string, base ten, on ASCII text: white space around the number
  (tab, line feed, vertical tab, form feed, carriage return, space) is dropped, one sign
  may come first, and single underscores may stand between digits. Anything else raises
  \<^verbatim>\<open>ValueError\<close> (here \<open>None\<close>).
\<close>

definition is_digit :: "char \<Rightarrow> bool" where
  "is_digit c \<longleftrightarrow> (48::nat) \<le> of_char c \<and> (of_char c :: nat) \<le> 57"

definition digit_val :: "char \<Rightarrow> nat" where
  "digit_val c = of_char c - 48"

definition is_space :: "char \<Rightarrow> bool" where
  "is_space c \<longleftrightarrow> (let k = (of_char c :: nat) in (9 \<le> k \<and> k \<le> 13) \<or> k = 32)"

definition strip :: "string \<Rightarrow> string" where
  "strip s = rev (dropWhile is_space (rev (dropWhile is_space s)))"

definition decimal :: "string \<Rightarrow> nat" where
  "decimal ds = foldl (\<lambda>a c. 10 * a + digit_val c) 0 ds"

definition parse_digits :: "string \<Rightarrow> nat option" where
  "parse_digits body =
     (let groups = py_split (CHR ''_'') body
      in if list_all (\<lambda>g. g \<noteq> [] \<and> list_all is_digit g) groups
         then Some (decimal (concat groups)) else None)"

definition py_int :: "string \<Rightarrow> int option" where
  "py_int s =
     (case strip s of
        [] \<Rightarrow> None
      | c # cs \<Rightarrow>
          if c = CHR ''-'' then map_option (\<lambda>v. - int v) (parse_digits cs)
          else if c = CHR ''+'' then map_option int (parse_digits cs)
          else map_option int (parse_digits (c # cs)))"

text \<open>\<^verbatim>\<open>list(map(int, parts))\<close>: the first part that is no number raises.\<close>

fun py_ints :: "string list \<Rightarrow> int list option" where
  "py_ints [] = Some []"
| "py_ints (p # ps) =
     (case py_int p of
        None \<Rightarrow> None
      | Some v \<Rightarrow> (case py_ints ps of None \<Rightarrow> None | Some vs \<Rightarrow> Some (v # vs)))"


section \<open>Errors and outcomes\<close>

text \<open>
  A call either returns, raises a Python exception, or waits on a kernel object that
  nobody in a sequential run will signal. The three outcomes are the values
  \<open>Inr v\<close>, \<open>Inl (Raised e)\<close> and \<open>Inl (Waits n)\<close>, with \<open>n\<close> the name of the
  semaphore or queue waited on; the state reached is returned beside the outcome, so
  that what an exception leaves behind can be inspected.
\<close>

datatype error =
    ValueError | KeyError | IndexError | OverflowError | AttributeError
  | TypeError | ExistentialError | OSError

datatype stop = Raised error | Waits string

type_synonym 'a outcome = "stop + 'a"

section \<open>The kernel objects of one topic\<close>

type_synonym byte = "8 word"

text \<open>A \<^verbatim>\<open>posix_ipc.Semaphore\<close> handle: the name it was opened under (used by
  \<^verbatim>\<open>unlink\<close>) and the kernel object it refers to, which outlives its name.\<close>

record semaphore =
  sname :: string
  sobj :: nat

text \<open>A control message \<^verbatim>\<open>{"r_id": ..., "command": ...}\<close>.\<close>

type_synonym msg = "string \<times> string"

text \<open>
  The state shared by the processes of one topic: the module-level \<^verbatim>\<open>system\<close> string,
  the contents of the four shared memory regions (\<^verbatim>\<open>cnt\<close> is read and written only
  through an \<^verbatim>\<open>int32\<close> view, so it is a 32-bit word), the semaphore objects of the
  kernel with the table of their names, and the messages waiting in the control
  channel.
\<close>

record world =
  system :: string
  ram :: "byte list"
  stm :: "byte list"
  cnt :: "32 word"
  mat :: string
  sem_val :: "nat \<Rightarrow> nat"
  sem_next :: nat
  sem_names :: "string \<rightharpoonup> nat"
  mq :: "msg list"

text \<open>What \<^verbatim>\<open>getattr(np, name)\<close> can return: a scalar type with its item size in bytes,
  or some other attribute of the module, which is no element type.\<close>

datatype np_obj = Scalar_type string nat | Attribute string

text \<open>
  A \<^verbatim>\<open>SharedFrame\<close> object. \<^verbatim>\<open>shape\<close> and \<^verbatim>\<open>dtype\<close> are the attributes a reader
  gets from the metadata; a writer has no \<^verbatim>\<open>shape\<close> attribute. \<^verbatim>\<open>connected\<close> says
  whether the loopback socket of the fallback channel is connected.
\<close>

record shared_frame =
  name :: string
  mode :: string
  sems :: "(string \<times> semaphore) list"
  ram_sem :: semaphore
  stm_sem :: semaphore
  cnt_sem :: semaphore
  mat_sem :: semaphore
  shape :: "int list"
  dtype :: np_obj
  connected :: bool

subsection \<open>Named semaphores\<close>

text \<open>\<^verbatim>\<open>Semaphore(name, O_CREX)\<close>: a new object with count 0 under a name that must be
  free; \<open>None\<close> is \<^verbatim>\<open>ExistentialError\<close>.\<close>

definition sem_create_excl :: "string \<Rightarrow> world \<Rightarrow> (semaphore \<times> world) option" where
  "sem_create_excl nm w =
     (case sem_names w nm of
        Some _ \<Rightarrow> None
      | None \<Rightarrow>
          Some (\<lparr>sname = nm, sobj = sem_next w\<rparr>,
                w\<lparr>sem_val := (sem_val w)(sem_next w := 0),
                  sem_names := (sem_names w)(nm \<mapsto> sem_next w),
                  sem_next := Suc (sem_next w)\<rparr>))"

text \<open>\<^verbatim>\<open>Semaphore(name)\<close>: opens an existing semaphore; \<open>None\<close> is
  \<^verbatim>\<open>ExistentialError\<close>.\<close>

definition sem_open :: "string \<Rightarrow> world \<Rightarrow> semaphore option" where
  "sem_open nm w = map_option (\<lambda>obj. \<lparr>sname = nm, sobj = obj\<rparr>) (sem_names w nm)"

text \<open>\<^verbatim>\<open>Semaphore(name, O_CREAT)\<close>: opens the semaphore, creating it when absent.\<close>

definition sem_open_creat :: "string \<Rightarrow> world \<Rightarrow> semaphore \<times> world" where
  "sem_open_creat nm w =
     (case sem_open nm w of
        Some sem \<Rightarrow> (sem, w)
      | None \<Rightarrow>
          (\<lparr>sname = nm, sobj = sem_next w\<rparr>,
           w\<lparr>sem_val := (sem_val w)(sem_next w := 0),
             sem_names := (sem_names w)(nm \<mapsto> sem_next w),
             sem_next := Suc (sem_next w)\<rparr>))"

text \<open>\<^verbatim>\<open>sem.unlink()\<close> removes the name the handle was opened under; \<open>None\<close> is
  \<^verbatim>\<open>ExistentialError\<close>, raised when the name is gone already.\<close>

definition sem_unlink :: "semaphore \<Rightarrow> world \<Rightarrow> world option" where
  "sem_unlink sem w =
     (case sem_names w (sname sem) of
        None \<Rightarrow> None
      | Some _ \<Rightarrow> Some (w\<lparr>sem_names := (sem_names w)(sname sem := None)\<rparr>))"

definition sem_value :: "semaphore \<Rightarrow> world \<Rightarrow> nat" where
  "sem_value sem w = sem_val w (sobj sem)"

text \<open>\<^verbatim>\<open>sem.acquire()\<close>: takes one unit when the count is positive; \<open>None\<close> when the
  caller has to wait.\<close>

definition sem_acquire :: "semaphore \<Rightarrow> world \<Rightarrow> world option" where
  "sem_acquire sem w =
     (if 0 < sem_value sem w
      then Some (w\<lparr>sem_val := (sem_val w)(sobj sem := sem_value sem w - 1)\<rparr>)
      else None)"

definition sem_release :: "semaphore \<Rightarrow> world \<Rightarrow> world" where
  "sem_release sem w = w\<lparr>sem_val := (sem_val w)(sobj sem := Suc (sem_value sem w))\<rparr>"

text \<open>\<^verbatim>\<open>SharedFrame._crea_sem\<close>: create the semaphore, replacing a stale one of the same
  name, and release it once.\<close>

definition crea_sem :: "string \<Rightarrow> world \<Rightarrow> semaphore outcome \<times> world" where
  "crea_sem nm w =
     (case sem_create_excl nm w of
        Some (sem, w1) \<Rightarrow> (Inr sem, sem_release sem w1)
      | None \<Rightarrow>
          (case sem_open_creat nm w of
             (sem0, w1) \<Rightarrow>
               (case sem_unlink sem0 w1 of
                  None \<Rightarrow> (Inl (Raised ExistentialError), w1)
                | Some w2 \<Rightarrow>
                    (case sem_create_excl nm w2 of
                       None \<Rightarrow> (Inl (Raised ExistentialError), w2)
                     | Some (sem, w3) \<Rightarrow> (Inr sem, sem_release sem w3)))))"

text \<open>\<^verbatim>\<open>SharedFrame._crex_sem\<close>: poll until the semaphore can be opened. In a sequential
  run nothing changes between two polls, so the loop may never end: \<open>None\<close> is the value
  of a call that does not return.\<close>

partial_function (option) crex_sem :: "string \<Rightarrow> world \<Rightarrow> semaphore option" where
  "crex_sem nm w =
     (case sem_open nm w of
        Some sem \<Rightarrow> Some sem
      | None \<Rightarrow> crex_sem nm w)"

subsection \<open>The control channel\<close>

text \<open>
  \<^verbatim>\<open>self.comm.send(msg)\<close>. Only a reader or a writer has a channel at all. With
  \<^verbatim>\<open>system == "Darwin"\<close> the channel is a loopback socket that only a reader can send
  on (\<^verbatim>\<open>self.connection\<close> is set in mode \<^verbatim>\<open>"r"\<close> alone, and a refused connection is
  passed over in silence); otherwise it is a POSIX message queue of depth one, whose
  \<^verbatim>\<open>send\<close> waits while the queue is full.
\<close>

definition q_name :: "shared_frame \<Rightarrow> string" where
  "q_name f = ''/'' @ name f"

definition comm_send :: "shared_frame \<Rightarrow> msg \<Rightarrow> world \<Rightarrow> unit outcome \<times> world" where
  "comm_send f m w =
     (if mode f \<noteq> ''r'' \<and> mode f \<noteq> ''w'' then (Inl (Raised AttributeError), w)
      else if system w = ''Darwin'' then
        (if mode f \<noteq> ''r'' then (Inl (Raised AttributeError), w)
         else if \<not> connected f then (Inl (Raised OSError), w)
         else (Inr (), w\<lparr>mq := mq w @ [m]\<rparr>))
      else if 1 \<le> length (mq w) then (Inl (Waits (q_name f)), w)
      else (Inr (), w\<lparr>mq := mq w @ [m]\<rparr>))"

text \<open>\<^verbatim>\<open>self.comm.recv()\<close>: the oldest message waiting, taken off the channel; the caller
  waits while there is none.\<close>

definition comm_recv :: "shared_frame \<Rightarrow> world \<Rightarrow> msg outcome \<times> world" where
  "comm_recv f w =
     (if mode f \<noteq> ''r'' \<and> mode f \<noteq> ''w'' then (Inl (Raised AttributeError), w)
      else case mq w of
             [] \<Rightarrow> (Inl (Waits (q_name f)), w)
           | m # rest \<Rightarrow> (Inr m, w\<lparr>mq := rest\<rparr>))"

section \<open>The methods of SharedFrame\<close>

text \<open>The mutex \<^verbatim>\<open>sems_lock\<close> is local to one process and always free when a method of
  a sequential run asks for it; it is left out.\<close>

subsection \<open>Metadata\<close>

text \<open>
  \<^verbatim>\<open>SharedFrame._serialize\<close>. The slice assignment \<^verbatim>\<open>self.mat[:] = ...\<close> to the memory
  view raises \<^verbatim>\<open>ValueError\<close> unless the text has the length of the region; on every
  error path the metadata semaphore stays acquired.
\<close>

definition serialize :: "shared_frame \<Rightarrow> int list \<Rightarrow> string \<Rightarrow> world \<Rightarrow> unit outcome \<times> world" where
  "serialize f shp dt w =
     (case sem_acquire (mat_sem f) w of
        None \<Rightarrow> (Inl (Waits (sname (mat_sem f))), w)
      | Some w1 \<Rightarrow>
          (let size = int (length (mat w1)); fill_up_size = numbers_sum size 2
           in case py_index fill_up_size 0 of
                None \<Rightarrow> (Inl (Raised IndexError), w1)
              | Some width0 \<Rightarrow>
                  (case py_index fill_up_size (- 1) of
                     None \<Rightarrow> (Inl (Raised IndexError), w1)
                   | Some width1 \<Rightarrow>
                       (let txt = ljust (py_join ''x'' (map str_int shp)) width0 (CHR ''*'')
                                  @ ''|'' @ ljust dt (width1 - 1) (CHR ''*'')
                        in if length txt \<noteq> length (mat w1) then (Inl (Raised ValueError), w1)
                           else (Inr (), sem_release (mat_sem f) (w1\<lparr>mat := txt\<rparr>))))))"

text \<open>
  \<^verbatim>\<open>SharedFrame._deserialize\<close>. \<^verbatim>\<open>np\<close> is the name space of the numeric library, looked
  up by \<^verbatim>\<open>getattr(np, self.dtype)\<close>; it is a parameter here. Unpacking the split text
  into two names raises \<^verbatim>\<open>ValueError\<close> unless there are exactly two fields. The
  attributes of the object are given as they stand when the method returns; after an
  exception the constructor fails and the object is never seen.
\<close>

definition deserialize ::
    "(string \<rightharpoonup> np_obj) \<Rightarrow> shared_frame \<Rightarrow> world \<Rightarrow> (int list \<times> np_obj) outcome \<times> shared_frame \<times> world" where
  "deserialize np f w =
     (case sem_acquire (mat_sem f) w of
        None \<Rightarrow> (Inl (Waits (sname (mat_sem f))), f, w)
      | Some w1 \<Rightarrow>
          (case py_split (CHR ''|'') (remove_stars (mat w1)) of
             [shape_txt, dtype_txt] \<Rightarrow>
               (case py_ints (py_split (CHR ''x'') shape_txt) of
                  None \<Rightarrow> (Inl (Raised ValueError), f, w1)
                | Some shp \<Rightarrow>
                    (case np dtype_txt of
                       None \<Rightarrow> (Inl (Raised AttributeError), f, w1)
                     | Some dt \<Rightarrow>
                         (Inr (shp, dt), f\<lparr>shape := shp, dtype := dt\<rparr>,
                          sem_release (mat_sem f) w1)))
           | _ \<Rightarrow> (Inl (Raised ValueError), f, w1)))"

subsection \<open>The registry\<close>

definition wake_name :: "shared_frame \<Rightarrow> string \<Rightarrow> string" where
  "wake_name f r_id = ''sem-'' @ name f @ ''-'' @ r_id"

text \<open>Line 182 of \<^verbatim>\<open>signin\<close>: the reader opens the wake semaphore, polling until it is
  there, and enters it in its registry.\<close>

definition signin_open :: "shared_frame \<Rightarrow> string \<Rightarrow> world \<Rightarrow> unit outcome \<times> shared_frame \<times> world" where
  "signin_open f r_id w =
     (case crex_sem (wake_name f r_id) w of
        None \<Rightarrow> (Inl (Waits (wake_name f r_id)), f, w)
      | Some sem \<Rightarrow> (Inr (), f\<lparr>sems := AList.update r_id sem (sems f)\<rparr>, w))"

text \<open>\<^verbatim>\<open>SharedFrame.signin\<close>: a reader announces itself (line 181) and opens the wake
  semaphore (line 182), a writer creates it. Any other mode does nothing.\<close>

definition signin :: "shared_frame \<Rightarrow> string \<Rightarrow> world \<Rightarrow> unit outcome \<times> shared_frame \<times> world" where
  "signin f r_id w =
     (if mode f = ''r'' then
        (case comm_send f (r_id, ''signin'') w of
           (Inl e, w1) \<Rightarrow> (Inl e, f, w1)
         | (Inr _, w1) \<Rightarrow> signin_open f r_id w1)
      else if mode f = ''w'' then
        (case crea_sem (wake_name f r_id) w of
           (Inl e, w1) \<Rightarrow> (Inl e, f, w1)
         | (Inr sem, w1) \<Rightarrow> (Inr (), f\<lparr>sems := AList.update r_id sem (sems f)\<rparr>, w1))
      else (Inr (), f, w))"

text \<open>\<^verbatim>\<open>SharedFrame.signout\<close>. The bare \<^verbatim>\<open>except: pass\<close> swallows every exception, and
  what was done before it stays done.\<close>

definition signout :: "shared_frame \<Rightarrow> string \<Rightarrow> world \<Rightarrow> unit outcome \<times> shared_frame \<times> world" where
  "signout f r_name w =
     (case map_of (sems f) r_name of
        None \<Rightarrow> (Inr (), f, w)
      | Some sem \<Rightarrow>
          (case sem_unlink sem w of
             None \<Rightarrow> (Inr (), f, w)
           | Some w1 \<Rightarrow>
               (case comm_send f (r_name, ''signout'') w1 of
                  (Inl (Raised e), w2) \<Rightarrow> (Inr (), f, w2)
                | (Inl (Waits q), w2) \<Rightarrow> (Inl (Waits q), f, w2)
                | (Inr _, w2) \<Rightarrow> (Inr (), f\<lparr>sems := AList.delete r_name (sems f)\<rparr>, w2))))"

text \<open>One round of the loop of \<^verbatim>\<open>SharedFrame.dsync\<close>, the listener of the publisher:
  receive one message and run the command it names. The loop itself never returns.\<close>

definition dsync_step :: "shared_frame \<Rightarrow> world \<Rightarrow> unit outcome \<times> shared_frame \<times> world" where
  "dsync_step f w =
     (case comm_recv f w of
        (Inl e, w1) \<Rightarrow> (Inl e, f, w1)
      | (Inr m, w1) \<Rightarrow>
          (case (if snd m = ''signin'' then signin f (fst m) w1 else (Inr (), f, w1)) of
             (Inl e, f1, w2) \<Rightarrow> (Inl e, f1, w2)
           | (Inr _, f1, w2) \<Rightarrow>
               if snd m = ''signout'' then signout f1 (fst m) w2 else (Inr (), f1, w2)))"

subsection \<open>Publishing\<close>

text \<open>A payload is a \<^verbatim>\<open>bytearray\<close>, written as it is, or an array, written as the bytes
  \<^verbatim>\<open>tobytes()\<close> returns.\<close>

datatype payload = Bytearray "byte list" | Array "byte list"

fun payload_bytes :: "payload \<Rightarrow> byte list" where
  "payload_bytes (Bytearray bs) = bs"
| "payload_bytes (Array bs) = bs"

text \<open>\<^verbatim>\<open>n.to_bytes(k, "little")\<close> raises \<^verbatim>\<open>OverflowError\<close> (here \<open>None\<close>) for a negative
  number and for one that needs more than \<^verbatim>\<open>k\<close> bytes; \<^verbatim>\<open>int.from_bytes(bs, "little")\<close>
  is its inverse.\<close>

fun to_bytes_le :: "nat \<Rightarrow> nat \<Rightarrow> byte list" where
  "to_bytes_le 0 v = []"
| "to_bytes_le (Suc k) v = of_nat (v mod 256) # to_bytes_le k (v div 256)"

definition to_bytes :: "int \<Rightarrow> nat \<Rightarrow> byte list option" where
  "to_bytes n k = (if n < 0 \<or> 256 ^ k \<le> n then None else Some (to_bytes_le k (nat n)))"

fun from_bytes :: "byte list \<Rightarrow> nat" where
  "from_bytes [] = 0"
| "from_bytes (b # bs) = unat b + 256 * from_bytes bs"

text \<open>One round of the fan-out loop of \<^verbatim>\<open>write\<close>, for the key \<^verbatim>\<open>k\<close>: nothing when the key
  has left the registry; nothing when the count can be read (\<^verbatim>\<open>system != "Darwin"\<close>) and
  is positive; a release otherwise.\<close>

definition fanout_one :: "shared_frame \<Rightarrow> string \<Rightarrow> world \<Rightarrow> world" where
  "fanout_one f k w =
     (case map_of (sems f) k of
        None \<Rightarrow> w
      | Some sem \<Rightarrow>
          if system w \<noteq> ''Darwin'' \<and> 0 < sem_value sem w then w
          else sem_release sem w)"

definition fanout :: "shared_frame \<Rightarrow> world \<Rightarrow> world" where
  "fanout f w = fold (fanout_one f) (map fst (sems f)) w"

text \<open>
  \<^verbatim>\<open>SharedFrame.write\<close>. The slice assignment \<^verbatim>\<open>self.ram[:] = ...\<close> raises
  \<^verbatim>\<open>ValueError\<close> unless the payload has the length of the frame region, and nothing
  between \<^verbatim>\<open>ram_sem.acquire()\<close> and \<^verbatim>\<open>ram_sem.release()\<close> catches an exception.
  (The name \<open>write\<close> is taken by Isabelle.)
\<close>

definition write_frame :: "shared_frame \<Rightarrow> payload \<Rightarrow> int \<Rightarrow> world \<Rightarrow> unit outcome \<times> world" where
  "write_frame f data ts w =
     (case sem_acquire (ram_sem f) w of
        None \<Rightarrow> (Inl (Waits (sname (ram_sem f))), w)
      | Some w1 \<Rightarrow>
          if length (payload_bytes data) \<noteq> length (ram w1) then (Inl (Raised ValueError), w1)
          else
            (let w2 = w1\<lparr>ram := payload_bytes data\<rparr>
             in case to_bytes ts 8 of
                  None \<Rightarrow> (Inl (Raised OverflowError), w2)
                | Some bs \<Rightarrow>
                    if length (take 8 (stm w2)) \<noteq> length bs then (Inl (Raised ValueError), w2)
                    else
                      (let w3 = w2\<lparr>stm := bs @ drop 8 (stm w2)\<rparr>;
                           w4 = sem_release (ram_sem f) w3
                       in (Inr (), fanout f w4))))"

subsection \<open>Reading\<close>

text \<open>The array \<^verbatim>\<open>read\<close> returns: its shape, its element type and its own copy of the
  bytes.\<close>

record ndarray =
  a_shape :: "int list"
  a_dtype :: np_obj
  a_bytes :: "byte list"

text \<open>Lines 257 to 268 of \<^verbatim>\<open>read\<close>: look the wake semaphore up, acquire it, and enter
  as a reader.\<close>

definition read_enter :: "shared_frame \<Rightarrow> string \<Rightarrow> world \<Rightarrow> unit outcome \<times> world" where
  "read_enter f r_id w =
     (case map_of (sems f) r_id of
        None \<Rightarrow> (Inl (Raised KeyError), w)
      | Some sem \<Rightarrow>
          (case sem_acquire sem w of
             None \<Rightarrow> (Inl (Waits (sname sem)), w)
           | Some w1 \<Rightarrow>
               (case sem_acquire (cnt_sem f) w1 of
                  None \<Rightarrow> (Inl (Waits (sname (cnt_sem f))), w1)
                | Some w2 \<Rightarrow>
                    (let w3 = w2\<lparr>cnt := cnt w2 + 1\<rparr>
                     in if cnt w3 = 1 then
                          (case sem_acquire (ram_sem f) w3 of
                             None \<Rightarrow> (Inl (Waits (sname (ram_sem f))), w3)
                           | Some w4 \<Rightarrow> (Inr (), sem_release (cnt_sem f) w4))
                        else (Inr (), sem_release (cnt_sem f) w3)))))"

text \<open>
  Lines 270 and 271. \<^verbatim>\<open>np.ndarray(shape=..., dtype=..., buffer=self.ram)\<close> copies
  nothing: it is a view of the first \<open>n\<close> bytes of the frame region, with \<open>n\<close> the
  product of the shape times the item size, and it raises when the element type is none,
  a dimension is negative or the region is shorter than \<open>n\<close>. The time stamp is read
  here. The result is \<open>n\<close> and the time stamp. Sizes are mathematical integers: for a
  shape of more than \<open>2^63 - 1\<close> bytes the library gives up earlier, with
  \<^verbatim>\<open>ValueError\<close>, where this definition says the region is too short.
\<close>

definition read_view :: "shared_frame \<Rightarrow> world \<Rightarrow> (nat \<times> nat) outcome" where
  "read_view f w =
     (if mode f \<noteq> ''r'' then Inl (Raised AttributeError)
      else case dtype f of
             Attribute _ \<Rightarrow> Inl (Raised TypeError)
           | Scalar_type _ itemsize \<Rightarrow>
               if list_ex (\<lambda>d. d < 0) (shape f) then Inl (Raised ValueError)
               else if int (length (ram w)) < prod_list (shape f) * int itemsize
               then Inl (Raised TypeError)
               else Inr (nat (prod_list (shape f) * int itemsize), from_bytes (take 8 (stm w))))"

text \<open>Lines 272 to 277: leave as a reader.\<close>

definition read_exit :: "shared_frame \<Rightarrow> world \<Rightarrow> unit outcome \<times> world" where
  "read_exit f w =
     (case sem_acquire (cnt_sem f) w of
        None \<Rightarrow> (Inl (Waits (sname (cnt_sem f))), w)
      | Some w1 \<Rightarrow>
          (let w2 = w1\<lparr>cnt := cnt w1 - 1\<rparr>
           in if cnt w2 = 0 then (Inr (), sem_release (cnt_sem f) (sem_release (ram_sem f) w2))
              else (Inr (), sem_release (cnt_sem f) w2)))"

text \<open>Line 278: \<^verbatim>\<open>data.copy()\<close> copies the bytes under the view out of the frame region
  as it is at that moment.\<close>

definition read_copy :: "shared_frame \<Rightarrow> nat \<Rightarrow> world \<Rightarrow> ndarray" where
  "read_copy f n w = \<lparr>a_shape = shape f, a_dtype = dtype f, a_bytes = take n (ram w)\<rparr>"

text \<open>\<^verbatim>\<open>SharedFrame.read\<close>, the four parts in the order of the source.\<close>

definition read :: "shared_frame \<Rightarrow> string \<Rightarrow> world \<Rightarrow> (ndarray \<times> nat) outcome \<times> world" where
  "read f r_id w =
     (case read_enter f r_id w of
        (Inl e, w1) \<Rightarrow> (Inl e, w1)
      | (Inr _, w1) \<Rightarrow>
          (case read_view f w1 of
             Inl e \<Rightarrow> (Inl e, w1)
           | Inr (n, t) \<Rightarrow>
               (case read_exit f w1 of
                  (Inl e, w2) \<Rightarrow> (Inl e, w2)
                | (Inr _, w2) \<Rightarrow> (Inr (read_copy f n w2, t), w2))))"

subsection \<open>Element types\<close>

text \<open>The closed set of element type names of the specification. The source has no such
  list: it looks the name up in the numeric library.\<close>

definition supported_dtypes :: "string list" where
  "supported_dtypes = [''uint8'', ''int16'', ''int32'', ''int64'', ''float32'', ''float64'']"

text \<open>The scalar types of the numeric library by name, with their item sizes in bytes:
  the part of its name space that the examples use as \<^verbatim>\<open>np\<close>, and only at these
  names; the library has many more attributes. The library is not part of this
  repository.\<close>

definition numpy_scalars :: "string \<rightharpoonup> np_obj" where
  "numpy_scalars nm =
     map_option (Scalar_type nm)
       (map_of [(''bool_'', 1), (''int8'', 1), (''uint8'', 1), (''int16'', 2), (''uint16'', 2),
                (''int32'', 4), (''uint32'', 4), (''int64'', 8), (''uint64'', 8),
                (''float16'', 2), (''float32'', 4), (''float64'', 8),
                (''complex64'', 8), (''complex128'', 16)] nm)"

subsection \<open>Schedules\<close>

text \<open>A publisher that calls \<^verbatim>\<open>write\<close> once for each frame of a list, in order; the first
  call that does not return ends the run.\<close>

fun write_all :: "shared_frame \<Rightarrow> (payload \<times> int) list \<Rightarrow> world \<Rightarrow> unit outcome \<times> world" where
  "write_all f [] w = (Inr (), w)"
| "write_all f ((data, ts) # rest) w =
     (case write_frame f data ts w of
        (Inl e, w1) \<Rightarrow> (Inl e, w1)
      | (Inr _, w1) \<Rightarrow> write_all f rest w1)"

text \<open>
  A run of two processes: a subscriber calls \<^verbatim>\<open>read\<close>, and after it has executed
  line 277 (it has left as a reader and released what it held) and before it executes
  line 278, the publisher \<^verbatim>\<open>pub\<close> calls \<^verbatim>\<open>write\<close> once. Nothing keeps the publisher
  from running there: no semaphore is held by the subscriber any more.
\<close>

definition read_with_late_write ::
    "shared_frame \<Rightarrow> string \<Rightarrow> shared_frame \<Rightarrow> payload \<Rightarrow> int \<Rightarrow> world
       \<Rightarrow> (ndarray \<times> nat) outcome \<times> world" where
  "read_with_late_write f r_id pub data ts w =
     (case read_enter f r_id w of
        (Inl e, w1) \<Rightarrow> (Inl e, w1)
      | (Inr _, w1) \<Rightarrow>
          (case read_view f w1 of
             Inl e \<Rightarrow> (Inl e, w1)
           | Inr (n, t) \<Rightarrow>
               (case read_exit f w1 of
                  (Inl e, w2) \<Rightarrow> (Inl e, w2)
                | (Inr _, w2) \<Rightarrow>
                    (case write_frame pub data ts w2 of
                       (Inl e, w3) \<Rightarrow> (Inl e, w3)
                     | (Inr _, w3) \<Rightarrow> (Inr (read_copy f n w3, t), w3)))))"

text \<open>
  The run by which a subscriber joins: the subscriber \<^verbatim>\<open>sub\<close> executes line 181 of
  \<^verbatim>\<open>signin\<close> (the message is sent), the listener of the publisher \<^verbatim>\<open>pub\<close> runs one
  round of \<^verbatim>\<open>dsync\<close>, and the subscriber executes line 182. The result is the outcome
  with both objects and the shared state.
\<close>

definition signin_with_listener ::
    "shared_frame \<Rightarrow> shared_frame \<Rightarrow> string \<Rightarrow> world
       \<Rightarrow> unit outcome \<times> shared_frame \<times> shared_frame \<times> world" where
  "signin_with_listener sub pub r_id w =
     (case comm_send sub (r_id, ''signin'') w of
        (Inl e, w1) \<Rightarrow> (Inl e, sub, pub, w1)
      | (Inr _, w1) \<Rightarrow>
          (case dsync_step pub w1 of
             (Inl e, pub1, w2) \<Rightarrow> (Inl e, sub, pub1, w2)
           | (Inr _, pub1, w2) \<Rightarrow>
               (case signin_open sub r_id w2 of
                  (res, sub1, w3) \<Rightarrow> (res, sub1, pub1, w3))))"

section \<open>An example topic\<close>

text \<open>
  The first scenario of the specification, used wherever a statement is tried on a
  concrete input: topic \<^verbatim>\<open>t1\<close> of shape \<^verbatim>\<open>(2, 2)\<close> and element type \<^verbatim>\<open>uint8\<close> on
  Linux, after the publisher has been constructed and the subscriber \<^verbatim>\<open>aaaa\<close> has
  signed in. The five semaphores are the kernel objects 0 to 4, each with count 1.
\<close>

definition t1_world :: world where
  "t1_world =
     \<lparr>system = ''Linux'',
      ram = [0, 0, 0, 0],
      stm = [0, 0, 0, 0, 0, 0, 0, 0],
      cnt = 0,
      mat = ''2x2*****************|uint8**************'',
      sem_val = (\<lambda>_. 0)(0 := 1, 1 := 1, 2 := 1, 3 := 1, 4 := 1),
      sem_next = 5,
      sem_names = [''ram-sem-t1'' \<mapsto> 0, ''stm-sem-t1'' \<mapsto> 1, ''cnt-sem-t1'' \<mapsto> 2,
                   ''mat-sem-t1'' \<mapsto> 3, ''sem-t1-aaaa'' \<mapsto> 4],
      mq = []\<rparr>"

definition t1_pub :: shared_frame where
  "t1_pub =
     \<lparr>name = ''t1'', mode = ''w'',
      sems = [(''aaaa'', \<lparr>sname = ''sem-t1-aaaa'', sobj = 4\<rparr>)],
      ram_sem = \<lparr>sname = ''ram-sem-t1'', sobj = 0\<rparr>,
      stm_sem = \<lparr>sname = ''stm-sem-t1'', sobj = 1\<rparr>,
      cnt_sem = \<lparr>sname = ''cnt-sem-t1'', sobj = 2\<rparr>,
      mat_sem = \<lparr>sname = ''mat-sem-t1'', sobj = 3\<rparr>,
      shape = [2, 2], dtype = Scalar_type ''uint8'' 1, connected = False\<rparr>"

definition t1_sub :: shared_frame where
  "t1_sub = t1_pub\<lparr>mode := ''r'', connected := True\<rparr>"

text \<open>Two frames for the example topic.\<close>

definition t1_frames :: "(payload \<times> int) list" where
  "t1_frames = [(Bytearray [1, 2, 3, 4], 100), (Array [5, 6, 7, 8], 200)]"

section \<open>Properties of publishing\<close>

lemma sem_acquire_regions:
  "sem_acquire sem w = Some w1 \<Longrightarrow>
     ram w1 = ram w \<and> stm w1 = stm w \<and> cnt w1 = cnt w \<and> mat w1 = mat w \<and> system w1 = system w"
  by (auto simp: sem_acquire_def split: if_splits)

lemma acquire_release_same:
  "sem_acquire sem w = Some w1 \<Longrightarrow>
     sem_val (sem_release sem (w1\<lparr>ram := r, stm := s\<rparr>)) = sem_val w"
  by (auto simp: sem_acquire_def sem_release_def sem_value_def split: if_splits)

lemma to_bytes_le_8:
  "to_bytes_le 8 v =
     [of_nat (v mod 256), of_nat (v div 256 mod 256), of_nat (v div 256 div 256 mod 256),
      of_nat (v div 256 div 256 div 256 mod 256),
      of_nat (v div 256 div 256 div 256 div 256 mod 256),
      of_nat (v div 256 div 256 div 256 div 256 div 256 mod 256),
      of_nat (v div 256 div 256 div 256 div 256 div 256 div 256 mod 256),
      of_nat (v div 256 div 256 div 256 div 256 div 256 div 256 div 256 mod 256)]"
proof -
  have "(8::nat) = Suc (Suc (Suc (Suc (Suc (Suc (Suc (Suc 0)))))))"
    by simp
  then show ?thesis
    by (simp only: to_bytes_le.simps)
qed

text \<open>
  C4. A payload whose length is not the size of the frame region makes \<^verbatim>\<open>write\<close> fail:
  as soon as the frame semaphore is available the call raises (\<^verbatim>\<open>ValueError\<close> is the
  exception behind the specification's ShapeMismatch), it never returns normally, and
  the frame region and the time stamp region are the same after the call as before.
\<close>

theorem write_wrong_length_fails:
  assumes "length (payload_bytes data) \<noteq> length (ram w)"
  shows "fst (write_frame f data ts w) =
           (if 0 < sem_value (ram_sem f) w then Inl (Raised ValueError)
            else Inl (Waits (sname (ram_sem f))))
         \<and> ram (snd (write_frame f data ts w)) = ram w
         \<and> stm (snd (write_frame f data ts w)) = stm w"
  using assms by (simp add: write_frame_def sem_acquire_def)

theorem write_wrong_length_fails_witness:
  "length (payload_bytes (Bytearray [1, 2, 3])) \<noteq> length (ram t1_world)
   \<and> fst (write_frame t1_pub (Bytearray [1, 2, 3]) 100 t1_world) = Inl (Raised ValueError)
   \<and> ram (snd (write_frame t1_pub (Bytearray [1, 2, 3]) 100 t1_world)) = [0, 0, 0, 0]
   \<and> stm (snd (write_frame t1_pub (Bytearray [1, 2, 3]) 100 t1_world)) = [0, 0, 0, 0, 0, 0, 0, 0]"
  using write_wrong_length_fails [of "Bytearray [1, 2, 3]" t1_world t1_pub 100]
  by (simp add: t1_world_def t1_pub_def sem_value_def)

text \<open>
  C10. When \<^verbatim>\<open>write\<close> is called with a payload of the wrong length and the frame
  semaphore is available, the exception leaves the call after the semaphore was acquired
  and before it is released: the state left behind is the state before the call with the
  count of the frame semaphore one lower, and nothing else changed.
\<close>

theorem write_wrong_length_keeps_frame_semaphore:
  assumes "length (payload_bytes data) \<noteq> length (ram w)"
    and "0 < sem_value (ram_sem f) w"
  shows "write_frame f data ts w =
           (Inl (Raised ValueError),
            w\<lparr>sem_val := (sem_val w)(sobj (ram_sem f) := sem_value (ram_sem f) w - 1)\<rparr>)"
  using assms by (simp add: write_frame_def sem_acquire_def)

theorem write_wrong_length_keeps_frame_semaphore_witness:
  "length (payload_bytes (Bytearray [1, 2, 3])) \<noteq> length (ram t1_world)
   \<and> sem_value (ram_sem t1_pub) t1_world = 1
   \<and> fst (write_frame t1_pub (Bytearray [1, 2, 3]) 100 t1_world) = Inl (Raised ValueError)
   \<and> sem_value (ram_sem t1_pub) (snd (write_frame t1_pub (Bytearray [1, 2, 3]) 100 t1_world)) = 0"
  using write_wrong_length_keeps_frame_semaphore [of "Bytearray [1, 2, 3]" t1_world t1_pub 100]
  by (simp add: t1_world_def t1_pub_def sem_value_def)

text \<open>
  C8. \<^verbatim>\<open>signout\<close> of an id that is not in the registry returns normally and changes
  nothing: the object (its registry) and the whole shared state (the names of the
  semaphores, the control channel) are what they were.
\<close>

theorem signout_unknown_noop:
  assumes "map_of (sems f) r_name = None"
  shows "signout f r_name w = (Inr (), f, w)"
  using assms by (simp add: signout_def)

theorem signout_unknown_noop_witness:
  "map_of (sems t1_pub) ''bbbb'' = None
   \<and> signout t1_pub ''bbbb'' t1_world = (Inr (), t1_pub, t1_world)"
  using signout_unknown_noop [of t1_pub "''bbbb''" t1_world]
  by (simp add: t1_pub_def)

subsection \<open>The fan-out\<close>

lemma fanout_one_system: "system (fanout_one f k w) = system w"
  by (simp add: fanout_one_def sem_release_def split: option.splits)

lemma fanout_one_val:
  assumes "system w \<noteq> ''Darwin''"
  shows "sem_val (fanout_one f k w) obj =
           (if (\<exists>sem. map_of (sems f) k = Some sem \<and> sobj sem = obj) \<and> sem_val w obj = 0
            then 1 else sem_val w obj)"
  using assms by (auto simp: fanout_one_def sem_release_def sem_value_def split: option.splits)

lemma fold_fanout_one_val:
  assumes "system w \<noteq> ''Darwin''"
  shows "sem_val (fold (fanout_one f) ks w) obj =
           (if (\<exists>k \<in> set ks. \<exists>sem. map_of (sems f) k = Some sem \<and> sobj sem = obj)
               \<and> sem_val w obj = 0
            then 1 else sem_val w obj)"
  using assms
proof (induction ks arbitrary: w)
  case Nil
  then show ?case by simp
next
  case (Cons k ks)
  have sys: "system (fanout_one f k w) \<noteq> ''Darwin''"
    using Cons.prems by (simp add: fanout_one_system)
  show ?case
    using Cons.IH [OF sys] fanout_one_val [OF Cons.prems, of f k]
    by auto
qed

lemma write_frame_result:
  assumes "write_frame f data ts w = (Inr (), w')"
  shows "\<exists>w4. w' = fanout f w4 \<and> sem_val w4 = sem_val w \<and> system w4 = system w"
proof -
  from assms obtain w1 where a: "sem_acquire (ram_sem f) w = Some w1"
    by (auto simp: write_frame_def split: option.splits)
  from assms a obtain bs where
    w': "w' = fanout f (sem_release (ram_sem f)
                 (w1\<lparr>ram := payload_bytes data, stm := bs @ drop 8 (stm w1)\<rparr>))"
    by (auto simp: write_frame_def Let_def split: option.splits if_splits)
  have "system w1 = system w"
    using a by (simp add: sem_acquire_regions)
  then show ?thesis
    using w' acquire_release_same [OF a] by (auto simp: sem_release_def)
qed

text \<open>
  C7. Where the count of a semaphore can be read (\<^verbatim>\<open>system\<close> is not \<^verbatim>\<open>"Darwin"\<close>), a
  \<^verbatim>\<open>write\<close> that returns has left every registered wake semaphore with a positive count
  as it was and has released every other one once, to 1. Hence, when no registered wake
  semaphore had a count above 1 before the call, and nobody acquires in between, none
  has afterwards.
\<close>

theorem fanout_saturation:
  assumes "system w \<noteq> ''Darwin''"
    and "write_frame f data ts w = (Inr (), w')"
  shows "(\<forall>k sem. map_of (sems f) k = Some sem \<longrightarrow>
            sem_value sem w' = (if 0 < sem_value sem w then sem_value sem w else 1))
         \<and> ((\<forall>k sem. map_of (sems f) k = Some sem \<longrightarrow> sem_value sem w \<le> 1) \<longrightarrow>
            (\<forall>k sem. map_of (sems f) k = Some sem \<longrightarrow> sem_value sem w' \<le> 1))"
proof -
  from write_frame_result [OF assms(2)] obtain w4 where
    w4: "w' = fanout f w4" "sem_val w4 = sem_val w" "system w4 = system w"
    by blast
  have sys: "system w4 \<noteq> ''Darwin''"
    using assms(1) w4(3) by simp
  have reg: "\<exists>k' \<in> set (map fst (sems f)). \<exists>sem'. map_of (sems f) k' = Some sem' \<and> sobj sem' = sobj sem"
    if "map_of (sems f) k = Some sem" for k sem
    using that by (metis map_of_SomeD fst_conv image_eqI set_map)
  have val: "sem_value sem w' = (if 0 < sem_value sem w then sem_value sem w else 1)"
    if "map_of (sems f) k = Some sem" for k sem
    using reg [OF that] fold_fanout_one_val [OF sys, of f "map fst (sems f)" "sobj sem"] w4(1,2)
    by (auto simp: fanout_def sem_value_def)
  show ?thesis
    using val by (metis le_refl)
qed

theorem fanout_saturation_witness:
  "system t1_world \<noteq> ''Darwin''
   \<and> fst (write_frame t1_pub (Bytearray [1, 2, 3, 4]) 100 t1_world) = Inr ()
   \<and> sem_value \<lparr>sname = ''sem-t1-aaaa'', sobj = 4\<rparr> t1_world = 1
   \<and> sem_value \<lparr>sname = ''sem-t1-aaaa'', sobj = 4\<rparr>
        (snd (write_frame t1_pub (Bytearray [1, 2, 3, 4]) 100 t1_world)) = 1"
  using fanout_saturation [of t1_world t1_pub "Bytearray [1, 2, 3, 4]" 100
      "snd (write_frame t1_pub (Bytearray [1, 2, 3, 4]) 100 t1_world)"]
  by (simp add: t1_world_def t1_pub_def sem_value_def write_frame_def sem_acquire_def to_bytes_def
      fanout_def fanout_one_def sem_release_def Let_def to_bytes_le_8)

section \<open>Properties of reading\<close>

lemma fanout_one_regions:
  "ram (fanout_one f k w) = ram w \<and> stm (fanout_one f k w) = stm w \<and> cnt (fanout_one f k w) = cnt w"
  by (simp add: fanout_one_def sem_release_def split: option.splits)

lemma fanout_one_mono: "sem_val w obj \<le> sem_val (fanout_one f k w) obj"
  by (simp add: fanout_one_def sem_release_def sem_value_def split: option.splits)

lemma fold_fanout_one_regions:
  "ram (fold (fanout_one f) ks w) = ram w \<and> stm (fold (fanout_one f) ks w) = stm w
   \<and> cnt (fold (fanout_one f) ks w) = cnt w"
  by (induction ks arbitrary: w) (simp_all add: fanout_one_regions)

lemma fold_fanout_one_mono: "sem_val w obj \<le> sem_val (fold (fanout_one f) ks w) obj"
proof (induction ks arbitrary: w)
  case Nil
  then show ?case by simp
next
  case (Cons k ks)
  have "sem_val w obj \<le> sem_val (fanout_one f k w) obj"
    by (rule fanout_one_mono)
  also have "\<dots> \<le> sem_val (fold (fanout_one f) ks (fanout_one f k w)) obj"
    by (rule Cons.IH)
  finally show ?case by simp
qed

lemma write_frame_ok:
  assumes "length (payload_bytes data) = length (ram w)"
    and "0 \<le> ts" and "ts < 2 ^ 64"
    and "length (stm w) = 8"
    and "0 < sem_value (ram_sem f) w"
  shows "\<exists>w'. write_frame f data ts w = (Inr (), w') \<and> ram w' = payload_bytes data
           \<and> stm w' = to_bytes_le 8 (nat ts) \<and> cnt w' = cnt w
           \<and> (\<forall>obj. sem_val w obj \<le> sem_val w' obj)"
proof -
  obtain w1 where a: "sem_acquire (ram_sem f) w = Some w1"
    using assms(5) by (simp add: sem_acquire_def)
  have r1: "ram w1 = ram w" "stm w1 = stm w" "cnt w1 = cnt w"
    using a by (simp_all add: sem_acquire_regions)
  have tb: "to_bytes ts 8 = Some (to_bytes_le 8 (nat ts))"
    using assms(2,3) by (simp add: to_bytes_def)
  have len: "length (to_bytes_le 8 (nat ts)) = 8"
    by (simp add: to_bytes_le_8)
  define w4 where "w4 = sem_release (ram_sem f)
      (w1\<lparr>ram := payload_bytes data, stm := to_bytes_le 8 (nat ts) @ drop 8 (stm w1)\<rparr>)"
  have eq: "write_frame f data ts w = (Inr (), fanout f w4)"
    using a r1 tb len assms(1,4) by (simp add: write_frame_def Let_def w4_def)
  have v: "sem_val w4 = sem_val w"
    unfolding w4_def by (rule acquire_release_same [OF a])
  have "ram w4 = payload_bytes data" "stm w4 = to_bytes_le 8 (nat ts)" "cnt w4 = cnt w"
    using r1 assms(4) by (simp_all add: w4_def sem_release_def)
  then show ?thesis
    using eq v fold_fanout_one_regions [of f "map fst (sems f)" w4]
      fold_fanout_one_mono [of w4 _ f "map fst (sems f)"]
    by (simp add: fanout_def)
qed

lemma to_bytes_le_length: "length (to_bytes_le k v) = k"
  by (induction k arbitrary: v) simp_all

lemma write_all_ok:
  assumes "\<forall>(data, ts) \<in> set frames. length (payload_bytes data) = length (ram w) \<and> 0 \<le> ts \<and> ts < 2 ^ 64"
    and "length (stm w) = 8"
    and "0 < sem_value (ram_sem f) w"
  shows "\<exists>w'. write_all f frames w = (Inr (), w')
           \<and> (frames \<noteq> [] \<longrightarrow> ram w' = payload_bytes (fst (last frames))
                                \<and> stm w' = to_bytes_le 8 (nat (snd (last frames))))
           \<and> cnt w' = cnt w
           \<and> (\<forall>obj. sem_val w obj \<le> sem_val w' obj)"
  using assms
proof (induction frames arbitrary: w)
  case Nil
  then show ?case by simp
next
  case (Cons fr frames)
  obtain data ts where fr: "fr = (data, ts)"
    by (cases fr)
  have h: "length (payload_bytes data) = length (ram w)" "0 \<le> ts" "ts < 2 ^ 64"
    using Cons.prems(1) fr by auto
  from write_frame_ok [OF h Cons.prems(2,3)] obtain w1 where
    w1: "write_frame f data ts w = (Inr (), w1)" "ram w1 = payload_bytes data"
      "stm w1 = to_bytes_le 8 (nat ts)" "cnt w1 = cnt w" "\<forall>obj. sem_val w obj \<le> sem_val w1 obj"
    by blast
  have p1: "\<forall>(data, ts) \<in> set frames. length (payload_bytes data) = length (ram w1) \<and> 0 \<le> ts \<and> ts < 2 ^ 64"
    using Cons.prems(1) w1(2) h(1) by auto
  have p2: "length (stm w1) = 8"
    using w1(3) by (simp add: to_bytes_le_length)
  have p3: "0 < sem_value (ram_sem f) w1"
    using Cons.prems(3) w1(5) by (metis sem_value_def less_le_trans)
  from Cons.IH [OF p1 p2 p3] obtain w' where
    w': "write_all f frames w1 = (Inr (), w')"
      "frames \<noteq> [] \<longrightarrow> ram w' = payload_bytes (fst (last frames))
                                \<and> stm w' = to_bytes_le 8 (nat (snd (last frames)))"
      "cnt w' = cnt w1" "\<forall>obj. sem_val w1 obj \<le> sem_val w' obj"
    by blast
  have "write_all f (fr # frames) w = (Inr (), w')"
    using fr w1(1) w'(1) by simp
  moreover have "ram w' = payload_bytes (fst (last (fr # frames)))
      \<and> stm w' = to_bytes_le 8 (nat (snd (last (fr # frames))))"
  proof (cases "frames = []")
    case True
    then show ?thesis using w'(1) w1(2,3) fr by simp
  next
    case False
    then show ?thesis using w'(2) by simp
  qed
  moreover have "\<forall>obj. sem_val w obj \<le> sem_val w' obj"
    using w1(5) w'(4) by (meson le_trans)
  ultimately show ?case
    using w'(3) w1(4) by simp
qed

lemma from_bytes_to_bytes_le: "v < 256 ^ k \<Longrightarrow> from_bytes (to_bytes_le k v) = v"
proof (induction k arbitrary: v)
  case 0
  then show ?case by simp
next
  case (Suc k)
  have "v div 256 < 256 ^ k"
    using Suc.prems by (simp add: less_mult_imp_div_less mult.commute)
  then have "from_bytes (to_bytes_le k (v div 256)) = v div 256"
    by (rule Suc.IH)
  moreover have "unat (of_nat (v mod 256) :: byte) = v mod 256"
    by (simp add: unat_of_nat)
  ultimately show ?case by simp
qed

lemma read_ok:
  assumes "cnt w = 0"
    and "map_of (sems f) r_id = Some sem"
    and "0 < sem_value sem w" and "0 < sem_value (cnt_sem f) w" and "0 < sem_value (ram_sem f) w"
    and "distinct [sobj sem, sobj (cnt_sem f), sobj (ram_sem f)]"
    and "mode f = ''r''" and "dtype f = Scalar_type nm itemsize"
    and "\<forall>d \<in> set (shape f). 0 \<le> d"
    and "prod_list (shape f) * int itemsize = int (length (ram w))"
  shows "\<exists>w'. read f r_id w =
           (Inr (\<lparr>a_shape = shape f, a_dtype = dtype f, a_bytes = ram w\<rparr>,
                 from_bytes (take 8 (stm w))), w')"
proof -
  have neg: "\<not> list_ex (\<lambda>d. d < 0) (shape f)"
    using assms(9) by (auto simp: list_ex_iff)
  show ?thesis
    using assms(1-8,10) neg
    by (auto simp: read_def read_enter_def read_view_def read_exit_def read_copy_def
        sem_acquire_def sem_release_def sem_value_def Let_def)
qed

text \<open>
  C1. Take a topic state with reader counter zero in which subscriber \<open>r_id\<close> is
  registered with an available wake semaphore, no call is under way (the frame and
  counter semaphores are available) and the reader's shape and element type describe
  the whole frame region. After any non-empty sequence of \<^verbatim>\<open>write\<close> calls, each with a
  payload of the size of the frame region and a time stamp from 0 up to \<open>2^64 - 1\<close>,
  every call returns, and a \<^verbatim>\<open>read(r_id)\<close> executed next returns the bytes of the last
  payload, in the declared shape and element type, and the last time stamp.
\<close>

theorem read_returns_last_write:
  assumes "frames \<noteq> []"
    and "\<forall>(data, ts) \<in> set frames. length (payload_bytes data) = length (ram w) \<and> 0 \<le> ts \<and> ts < 2 ^ 64"
    and "length (stm w) = 8"
    and "cnt w = 0"
    and "map_of (sems sub) r_id = Some sem" and "0 < sem_value sem w"
    and "0 < sem_value (ram_sem pub) w" and "0 < sem_value (ram_sem sub) w"
    and "0 < sem_value (cnt_sem sub) w"
    and "distinct [sobj sem, sobj (cnt_sem sub), sobj (ram_sem sub)]"
    and "mode sub = ''r''" and "dtype sub = Scalar_type nm itemsize"
    and "\<forall>d \<in> set (shape sub). 0 \<le> d"
    and "prod_list (shape sub) * int itemsize = int (length (ram w))"
  shows "\<exists>w1 w2. write_all pub frames w = (Inr (), w1)
           \<and> read sub r_id w1 =
               (Inr (\<lparr>a_shape = shape sub, a_dtype = dtype sub,
                       a_bytes = payload_bytes (fst (last frames))\<rparr>,
                     nat (snd (last frames))), w2)"
proof -
  from write_all_ok [OF assms(2,3,7)] assms(1) obtain w1 where
    w1: "write_all pub frames w = (Inr (), w1)"
      "ram w1 = payload_bytes (fst (last frames))"
      "stm w1 = to_bytes_le 8 (nat (snd (last frames)))"
      "cnt w1 = cnt w" "\<forall>obj. sem_val w obj \<le> sem_val w1 obj"
    by blast
  have "last frames \<in> set frames"
    using assms(1) by simp
  then have lastok: "length (payload_bytes (fst (last frames))) = length (ram w)"
      "0 \<le> snd (last frames)" "snd (last frames) < 2 ^ 64"
    using assms(2) by (auto simp: case_prod_beta)
  have up: "0 < sem_value s w \<Longrightarrow> 0 < sem_value s w1" for s
    using w1(5) by (metis sem_value_def less_le_trans)
  have "nat (snd (last frames)) < 256 ^ 8"
    using lastok(2,3) by (simp add: nat_less_iff)
  then have ts: "from_bytes (take 8 (stm w1)) = nat (snd (last frames))"
    using w1(3) by (simp add: to_bytes_le_length from_bytes_to_bytes_le)
  have size: "prod_list (shape sub) * int itemsize = int (length (ram w1))"
    using assms(14) w1(2) lastok(1) by simp
  have c0: "cnt w1 = 0"
    using w1(4) assms(4) by simp
  from read_ok [OF c0 assms(5) up [OF assms(6)] up [OF assms(9)] up [OF assms(8)]
      assms(10,11,12,13) size]
  obtain w2 where "read sub r_id w1 =
      (Inr (\<lparr>a_shape = shape sub, a_dtype = dtype sub, a_bytes = ram w1\<rparr>,
            from_bytes (take 8 (stm w1))), w2)"
    by blast
  then show ?thesis
    using w1(1,2) ts by simp
qed

theorem read_returns_last_write_witness:
  "fst (write_all t1_pub t1_frames t1_world) = Inr ()
   \<and> fst (read t1_sub ''aaaa'' (snd (write_all t1_pub t1_frames t1_world))) =
       Inr (\<lparr>a_shape = [2, 2], a_dtype = Scalar_type ''uint8'' 1, a_bytes = [5, 6, 7, 8]\<rparr>, 200)"
proof -
  have "\<exists>w1 w2. write_all t1_pub t1_frames t1_world = (Inr (), w1)
           \<and> read t1_sub ''aaaa'' w1 =
               (Inr (\<lparr>a_shape = shape t1_sub, a_dtype = dtype t1_sub,
                       a_bytes = payload_bytes (fst (last t1_frames))\<rparr>,
                     nat (snd (last t1_frames))), w2)"
    by (rule read_returns_last_write
          [where sem = "\<lparr>sname = ''sem-t1-aaaa'', sobj = 4\<rparr>" and nm = "''uint8''" and itemsize = 1])
       (simp_all add: t1_frames_def t1_world_def t1_pub_def t1_sub_def sem_value_def)
  then show ?thesis
    by (auto simp: t1_frames_def t1_pub_def t1_sub_def)
qed

text \<open>
  C3. The claim holds for the time stamp and for the order of the semaphore operations;
  it fails for the frame bytes. Line 270 builds a view of the frame region and copies
  nothing; the bytes handed to the caller are copied by \<^verbatim>\<open>data.copy()\<close> on line 278,
  after the reader counter was decremented and the frame semaphore released. In the
  example topic, after the frame \<open>[1, 2, 3, 4]\<close> was published at time 100, a reader
  whose \<^verbatim>\<open>read\<close> is overtaken between lines 277 and 278 by the publication of
  \<open>[9, 9, 9, 9]\<close> at time 200 returns the bytes of the second frame with the time stamp
  of the first.
\<close>

theorem read_copies_after_release:
  "fst (write_frame t1_pub (Bytearray [1, 2, 3, 4]) 100 t1_world) = Inr ()
   \<and> fst (read_with_late_write t1_sub ''aaaa'' t1_pub (Bytearray [9, 9, 9, 9]) 200
          (snd (write_frame t1_pub (Bytearray [1, 2, 3, 4]) 100 t1_world))) =
       Inr (\<lparr>a_shape = [2, 2], a_dtype = Scalar_type ''uint8'' 1, a_bytes = [9, 9, 9, 9]\<rparr>, 100)"
  by (simp add: read_with_late_write_def read_enter_def read_view_def read_exit_def read_copy_def
      t1_world_def t1_pub_def t1_sub_def sem_value_def write_frame_def sem_acquire_def to_bytes_def
      fanout_def fanout_one_def sem_release_def Let_def to_bytes_le_8)

subsection \<open>Creation of semaphores\<close>

lemma crea_sem_eq:
  "crea_sem nm v =
     (Inr \<lparr>sname = nm, sobj = sem_next v\<rparr>,
      sem_release \<lparr>sname = nm, sobj = sem_next v\<rparr>
        (v\<lparr>sem_val := (sem_val v)(sem_next v := 0),
           sem_names := (sem_names v)(nm \<mapsto> sem_next v),
           sem_next := Suc (sem_next v)\<rparr>))"
  by (cases "sem_names v nm")
     (simp_all add: crea_sem_def sem_create_excl_def sem_open_creat_def sem_open_def sem_unlink_def)

lemma crea_sem_one:
  "\<exists>sem v0. crea_sem nm v = (Inr sem, sem_release sem v0) \<and> sem_value sem v0 = 0
       \<and> sem_value sem (sem_release sem v0) = 1 \<and> sem_open nm (sem_release sem v0) = Some sem"
proof -
  let ?sem = "\<lparr>sname = nm, sobj = sem_next v\<rparr>"
  let ?v0 = "v\<lparr>sem_val := (sem_val v)(sem_next v := 0),
               sem_names := (sem_names v)(nm \<mapsto> sem_next v),
               sem_next := Suc (sem_next v)\<rparr>"
  have "crea_sem nm v = (Inr ?sem, sem_release ?sem ?v0)"
    by (rule crea_sem_eq)
  moreover have "sem_value ?sem ?v0 = 0"
    by (simp add: sem_value_def)
  moreover have "sem_value ?sem (sem_release ?sem ?v0) = 1"
    by (simp add: sem_value_def sem_release_def)
  moreover have "sem_open nm (sem_release ?sem ?v0) = Some ?sem"
    by (simp add: sem_open_def sem_release_def)
  ultimately show ?thesis
    by blast
qed

lemma read_first_after_signin:
  assumes "cnt w = 0"
    and "map_of (sems f) r_id = Some sem"
    and "sem_value sem w = 1" and "0 < sem_value (cnt_sem f) w" and "0 < sem_value (ram_sem f) w"
    and "distinct [sobj sem, sobj (cnt_sem f), sobj (ram_sem f)]"
    and "mode f = ''r''" and "dtype f = Scalar_type nm itemsize"
    and "\<forall>d \<in> set (shape f). 0 \<le> d"
    and "prod_list (shape f) * int itemsize = int (length (ram w))"
  shows "\<exists>w3. read_enter f r_id w = (Inr (), w3) \<and> sem_value sem w3 = 0"
    and "\<exists>w4. read f r_id w =
           (Inr (\<lparr>a_shape = shape f, a_dtype = dtype f, a_bytes = ram w\<rparr>,
                 from_bytes (take 8 (stm w))), w4) \<and> sem_value sem w4 = 0"
proof -
  have neg: "\<not> list_ex (\<lambda>d. d < 0) (shape f)"
    using assms(9) by (auto simp: list_ex_iff)
  show "\<exists>w3. read_enter f r_id w = (Inr (), w3) \<and> sem_value sem w3 = 0"
    using assms(1-6)
    by (auto simp: read_enter_def sem_acquire_def sem_release_def sem_value_def Let_def)
  show "\<exists>w4. read f r_id w =
           (Inr (\<lparr>a_shape = shape f, a_dtype = dtype f, a_bytes = ram w\<rparr>,
                 from_bytes (take 8 (stm w))), w4) \<and> sem_value sem w4 = 0"
    using assms(1-8,10) neg
    by (auto simp: read_def read_enter_def read_view_def read_exit_def read_copy_def
        sem_acquire_def sem_release_def sem_value_def Let_def)
qed

lemma signin_with_listener_result:
  assumes "mode pub = ''w''" and "mode sub = ''r''" and "name sub = name pub"
    and "mq w = []"
    and "system w \<noteq> ''Darwin'' \<or> connected sub"
  shows "signin_with_listener sub pub r_id w =
           (Inr (),
            sub\<lparr>sems := AList.update r_id \<lparr>sname = wake_name pub r_id, sobj = sem_next w\<rparr> (sems sub)\<rparr>,
            pub\<lparr>sems := AList.update r_id \<lparr>sname = wake_name pub r_id, sobj = sem_next w\<rparr> (sems pub)\<rparr>,
            sem_release \<lparr>sname = wake_name pub r_id, sobj = sem_next w\<rparr>
              (w\<lparr>mq := [],
                 sem_val := (sem_val w)(sem_next w := 0),
                 sem_names := (sem_names w)(wake_name pub r_id \<mapsto> sem_next w),
                 sem_next := Suc (sem_next w)\<rparr>))"
proof -
  let ?sem = "\<lparr>sname = wake_name pub r_id, sobj = sem_next w\<rparr>"
  let ?w2 = "sem_release ?sem
              (w\<lparr>mq := [],
                 sem_val := (sem_val w)(sem_next w := 0),
                 sem_names := (sem_names w)(wake_name pub r_id \<mapsto> sem_next w),
                 sem_next := Suc (sem_next w)\<rparr>)"
  have nm: "wake_name sub r_id = wake_name pub r_id"
    using assms(3) by (simp add: wake_name_def)
  have s: "comm_send sub (r_id, ''signin'') w = (Inr (), w\<lparr>mq := [(r_id, ''signin'')]\<rparr>)"
    using assms(2,4,5) by (auto simp: comm_send_def)
  have r: "comm_recv pub (w\<lparr>mq := [(r_id, ''signin'')]\<rparr>) = (Inr (r_id, ''signin''), w\<lparr>mq := []\<rparr>)"
    using assms(1) by (simp add: comm_recv_def)
  have p: "signin pub r_id (w\<lparr>mq := []\<rparr>) =
      (Inr (), pub\<lparr>sems := AList.update r_id ?sem (sems pub)\<rparr>, ?w2)"
    using assms(1) by (simp add: signin_def crea_sem_eq)
  have d: "dsync_step pub (w\<lparr>mq := [(r_id, ''signin'')]\<rparr>) =
      (Inr (), pub\<lparr>sems := AList.update r_id ?sem (sems pub)\<rparr>, ?w2)"
    by (simp add: dsync_step_def r p)
  have "sem_open (wake_name sub r_id) ?w2 = Some ?sem"
    by (simp add: sem_open_def sem_release_def nm)
  then have "crex_sem (wake_name sub r_id) ?w2 = Some ?sem"
    by (simp add: crex_sem.simps)
  then have o: "signin_open sub r_id ?w2 =
      (Inr (), sub\<lparr>sems := AList.update r_id ?sem (sems sub)\<rparr>, ?w2)"
    by (simp add: signin_open_def)
  show ?thesis
    by (simp add: signin_with_listener_def s d o)
qed

text \<open>
  C9. \<^verbatim>\<open>_crea_sem\<close>, through which the publisher creates every semaphore, always
  returns a semaphore that was created with count 0 and released once, so its count is
  exactly 1. Consequently, take a topic at rest (nothing waits in the control channel,
  reader counter zero, frame and counter semaphores available) and let a subscriber
  join: it sends its \<^verbatim>\<open>signin\<close> message, the listener of the publisher handles it, and
  the subscriber opens the wake semaphore. Then both registries hold the same semaphore
  with count 1, and the subscriber's first \<^verbatim>\<open>read(r_id)\<close>, with no publication in
  between, passes its entry part at once, taking the wake semaphore to 0, and returns
  the frame region and time stamp as they are.
\<close>

theorem created_semaphores_start_at_one:
  assumes "mode pub = ''w''" and "mode sub = ''r''" and "name sub = name pub"
    and "mq w = []"
    and "system w \<noteq> ''Darwin'' \<or> connected sub"
    and "cnt w = 0"
    and "0 < sem_value (cnt_sem sub) w" and "0 < sem_value (ram_sem sub) w"
    and "sobj (cnt_sem sub) < sem_next w" and "sobj (ram_sem sub) < sem_next w"
    and "sobj (cnt_sem sub) \<noteq> sobj (ram_sem sub)"
    and "dtype sub = Scalar_type nm itemsize"
    and "\<forall>d \<in> set (shape sub). 0 \<le> d"
    and "prod_list (shape sub) * int itemsize = int (length (ram w))"
  shows "(\<forall>nm v. \<exists>sem v0. crea_sem nm v = (Inr sem, sem_release sem v0) \<and> sem_value sem v0 = 0
             \<and> sem_value sem (sem_release sem v0) = 1)
         \<and> (\<exists>sem sub' pub' w2.
               signin_with_listener sub pub r_id w = (Inr (), sub', pub', w2)
               \<and> map_of (sems pub') r_id = Some sem \<and> map_of (sems sub') r_id = Some sem
               \<and> sem_value sem w2 = 1
               \<and> (\<exists>w3. read_enter sub' r_id w2 = (Inr (), w3) \<and> sem_value sem w3 = 0)
               \<and> (\<exists>w4. read sub' r_id w2 =
                      (Inr (\<lparr>a_shape = shape sub, a_dtype = dtype sub, a_bytes = ram w\<rparr>,
                            from_bytes (take 8 (stm w))), w4)
                    \<and> sem_value sem w4 = 0))"
proof -
  let ?sem = "\<lparr>sname = wake_name pub r_id, sobj = sem_next w\<rparr>"
  let ?sub' = "sub\<lparr>sems := AList.update r_id ?sem (sems sub)\<rparr>"
  let ?pub' = "pub\<lparr>sems := AList.update r_id ?sem (sems pub)\<rparr>"
  let ?w2 = "sem_release ?sem
              (w\<lparr>mq := [],
                 sem_val := (sem_val w)(sem_next w := 0),
                 sem_names := (sem_names w)(wake_name pub r_id \<mapsto> sem_next w),
                 sem_next := Suc (sem_next w)\<rparr>)"
  have first: "\<forall>nm v. \<exists>sem v0. crea_sem nm v = (Inr sem, sem_release sem v0) \<and> sem_value sem v0 = 0
             \<and> sem_value sem (sem_release sem v0) = 1"
    using crea_sem_one by blast
  have run: "signin_with_listener sub pub r_id w = (Inr (), ?sub', ?pub', ?w2)"
    using assms(1-5) by (rule signin_with_listener_result)
  have regs: "map_of (sems ?pub') r_id = Some ?sem" "map_of (sems ?sub') r_id = Some ?sem"
    by (simp_all add: update_Some_unfold)
  have one: "sem_value ?sem ?w2 = 1"
    by (simp add: sem_value_def sem_release_def)
  have c0: "cnt ?w2 = 0"
    using assms(6) by (simp add: sem_release_def)
  have av: "0 < sem_value (cnt_sem ?sub') ?w2" "0 < sem_value (ram_sem ?sub') ?w2"
    using assms(7-10) by (simp_all add: sem_value_def sem_release_def)
  have di: "distinct [sobj ?sem, sobj (cnt_sem ?sub'), sobj (ram_sem ?sub')]"
    using assms(9-11) by simp
  have md: "mode ?sub' = ''r''" "dtype ?sub' = Scalar_type nm itemsize"
    using assms(2,12) by simp_all
  have sh: "\<forall>d \<in> set (shape ?sub'). 0 \<le> d"
    using assms(13) by simp
  have sz: "prod_list (shape ?sub') * int itemsize = int (length (ram ?w2))"
    using assms(14) by (simp add: sem_release_def)
  have ent: "\<exists>w3. read_enter ?sub' r_id ?w2 = (Inr (), w3) \<and> sem_value ?sem w3 = 0"
    by (rule read_first_after_signin(1) [OF c0 regs(2) one av di md sh sz])
  have "\<exists>w4. read ?sub' r_id ?w2 =
           (Inr (\<lparr>a_shape = shape ?sub', a_dtype = dtype ?sub', a_bytes = ram ?w2\<rparr>,
                 from_bytes (take 8 (stm ?w2))), w4) \<and> sem_value ?sem w4 = 0"
    by (rule read_first_after_signin(2) [OF c0 regs(2) one av di md sh sz])
  then have rd: "\<exists>w4. read ?sub' r_id ?w2 =
           (Inr (\<lparr>a_shape = shape sub, a_dtype = dtype sub, a_bytes = ram w\<rparr>,
                 from_bytes (take 8 (stm w))), w4) \<and> sem_value ?sem w4 = 0"
    by (simp add: sem_release_def)
  show ?thesis
    using first run regs one ent rd by blast
qed

theorem created_semaphores_start_at_one_witness:
  "mode t1_pub = ''w'' \<and> mode t1_sub = ''r'' \<and> name t1_sub = name t1_pub \<and> mq t1_world = []
   \<and> fst (signin_with_listener t1_sub t1_pub ''bbbb'' t1_world) = Inr ()
   \<and> fst (read_enter (fst (snd (signin_with_listener t1_sub t1_pub ''bbbb'' t1_world))) ''bbbb''
            (snd (snd (snd (signin_with_listener t1_sub t1_pub ''bbbb'' t1_world))))) = Inr ()
   \<and> fst (read (fst (snd (signin_with_listener t1_sub t1_pub ''bbbb'' t1_world))) ''bbbb''
            (snd (snd (snd (signin_with_listener t1_sub t1_pub ''bbbb'' t1_world))))) =
       Inr (\<lparr>a_shape = [2, 2], a_dtype = Scalar_type ''uint8'' 1, a_bytes = [0, 0, 0, 0]\<rparr>, 0)"
proof -
  have h: "mode t1_pub = ''w''" "mode t1_sub = ''r''" "name t1_sub = name t1_pub" "mq t1_world = []"
    "system t1_world \<noteq> ''Darwin'' \<or> connected t1_sub"
    "cnt t1_world = 0"
    "0 < sem_value (cnt_sem t1_sub) t1_world" "0 < sem_value (ram_sem t1_sub) t1_world"
    "sobj (cnt_sem t1_sub) < sem_next t1_world" "sobj (ram_sem t1_sub) < sem_next t1_world"
    "sobj (cnt_sem t1_sub) \<noteq> sobj (ram_sem t1_sub)"
    "dtype t1_sub = Scalar_type ''uint8'' 1"
    "\<forall>d \<in> set (shape t1_sub). 0 \<le> d"
    "prod_list (shape t1_sub) * int 1 = int (length (ram t1_world))"
    by (simp_all add: t1_world_def t1_pub_def t1_sub_def sem_value_def)
  have sh: "shape t1_sub = [2, 2]" "dtype t1_sub = Scalar_type ''uint8'' 1"
    "ram t1_world = [0, 0, 0, 0]" "from_bytes (take 8 (stm t1_world)) = 0"
    by (simp_all add: t1_world_def t1_pub_def t1_sub_def)
  from created_semaphores_start_at_one [OF h, of "''bbbb''"] obtain sem sub' pub' w2 w3 w4 where
    r: "signin_with_listener t1_sub t1_pub ''bbbb'' t1_world = (Inr (), sub', pub', w2)"
      "read_enter sub' ''bbbb'' w2 = (Inr (), w3)"
      "read sub' ''bbbb'' w2 =
         (Inr (\<lparr>a_shape = shape t1_sub, a_dtype = dtype t1_sub, a_bytes = ram t1_world\<rparr>,
               from_bytes (take 8 (stm t1_world))), w4)"
    by blast
  show ?thesis
    using h(1-4) r sh by simp
qed

section \<open>Properties of the metadata record\<close>

subsection \<open>Text\<close>

lemma numbers_sum_40: "numbers_sum 40 2 = [20, 20]"
  by (simp add: numbers_sum_def Let_def numeral_2_eq_2)


lemma digit_char_facts:
  assumes "d < 10"
  shows "is_digit (digit_char d)" and "digit_val (digit_char d) = d"
proof -
  have "d \<in> {0, 1, 2, 3, 4, 5, 6, 7, 8, 9}"
    using assms by auto
  then show "is_digit (digit_char d)" and "digit_val (digit_char d) = d"
    by (auto simp: digit_char_def is_digit_def digit_val_def)
qed

lemma length_ljust: "length (ljust s n c) = max (length s) (nat n)"
  by (simp add: ljust_def)

lemma remove_stars_ljust: "remove_stars (ljust s n (CHR ''*'')) = remove_stars s"
  by (simp add: remove_stars_def ljust_def)

lemma remove_stars_id: "CHR ''*'' \<notin> set s \<Longrightarrow> remove_stars s = s"
  by (auto simp: remove_stars_def filter_id_conv)

lemma py_split_no_sep: "sep \<notin> set a \<Longrightarrow> py_split sep a = [a]"
  by (induction a) auto

lemma py_split_append: "sep \<notin> set a \<Longrightarrow> py_split sep (a @ sep # b) = a # py_split sep b"
  by (induction a) auto

lemma digits_nonempty: "digits n \<noteq> []"
  by (subst digits.simps) simp

lemma digits_all_digit: "list_all is_digit (digits n)"
proof (induction n rule: digits.induct)
  case (1 n)
  show ?case
  proof (cases "n < 10")
    case True
    then show ?thesis
      by (subst digits.simps) (simp add: digit_char_facts)
  next
    case False
    then have "list_all is_digit (digits (n div 10))"
      by (rule "1.IH")
    moreover have "is_digit (digit_char (n mod 10))"
      by (simp add: digit_char_facts)
    ultimately show ?thesis
      using False by (subst digits.simps) simp
  qed
qed

lemma decimal_snoc: "decimal (ds @ [c]) = 10 * decimal ds + digit_val c"
  by (simp add: decimal_def)

lemma decimal_digits: "decimal (digits n) = n"
proof (induction n rule: digits.induct)
  case (1 n)
  show ?case
  proof (cases "n < 10")
    case True
    then show ?thesis
      by (subst digits.simps) (simp add: decimal_def digit_char_facts)
  next
    case False
    then have "decimal (digits (n div 10)) = n div 10"
      by (rule "1.IH")
    then show ?thesis
      using False by (subst digits.simps) (simp add: decimal_snoc digit_char_facts)
  qed
qed

lemma is_digit_not_special:
  assumes "is_digit c"
  shows "c \<noteq> CHR ''*''" and "c \<noteq> CHR ''|''" and "c \<noteq> CHR ''x''" and "c \<noteq> CHR ''_''"
    and "c \<noteq> CHR ''-''" and "c \<noteq> CHR ''+''" and "\<not> is_space c"
  using assms by (auto simp: is_digit_def is_space_def)

lemma digits_avoid:
  assumes "\<not> is_digit c"
  shows "c \<notin> set (digits n)"
  using digits_all_digit [of n] assms by (auto simp: list_all_iff)

lemma parse_digits_digits: "parse_digits (digits n) = Some n"
proof -
  have "CHR ''_'' \<notin> set (digits n)"
    by (rule digits_avoid) (simp add: is_digit_def)
  then have "py_split (CHR ''_'') (digits n) = [digits n]"
    by (rule py_split_no_sep)
  then show ?thesis
    by (simp add: parse_digits_def digits_nonempty digits_all_digit decimal_digits)
qed

lemma strip_id:
  assumes "s \<noteq> []" and "\<not> is_space (hd s)" and "\<not> is_space (last s)"
  shows "strip s = s"
proof -
  have "dropWhile is_space s = s"
    using assms(1,2) by (cases s) simp_all
  moreover have "dropWhile is_space (rev s) = rev s"
    using assms(1,3) by (cases "rev s") (simp_all add: hd_rev [symmetric])
  ultimately show ?thesis
    by (simp add: strip_def)
qed

lemma digits_ends: "is_digit (hd (digits n))" "is_digit (last (digits n))"
  using digits_all_digit [of n] digits_nonempty [of n]
  by (auto simp: list_all_iff)

lemma py_int_str_int: "py_int (str_int n) = Some n"
proof (cases "n < 0")
  case True
  have a: "\<not> is_space (hd (CHR ''-'' # digits (nat (- n))))"
    by (simp add: is_space_def)
  have "last (CHR ''-'' # digits (nat (- n))) = last (digits (nat (- n)))"
    by (simp add: digits_nonempty)
  then have b: "\<not> is_space (last (CHR ''-'' # digits (nat (- n))))"
    using digits_ends(2) [of "nat (- n)"] by (simp add: is_digit_not_special(7))
  have "strip (CHR ''-'' # digits (nat (- n))) = CHR ''-'' # digits (nat (- n))"
    using a b by (intro strip_id) simp_all
  then show ?thesis
    using True by (simp add: py_int_def str_int_def parse_digits_digits)
next
  case False
  have st: "strip (digits (nat n)) = digits (nat n)"
    by (intro strip_id) (simp_all add: digits_nonempty digits_ends is_digit_not_special)
  obtain c cs where d: "digits (nat n) = c # cs"
    using digits_nonempty [of "nat n"] by (cases "digits (nat n)") auto
  have "is_digit c"
    using digits_ends(1) [of "nat n"] d by simp
  then have "c \<noteq> CHR ''-''" "c \<noteq> CHR ''+''"
    by (simp_all add: is_digit_not_special)
  then have "py_int (digits (nat n)) = map_option int (parse_digits (digits (nat n)))"
    using st d by (simp add: py_int_def)
  then show ?thesis
    using False by (simp add: str_int_def parse_digits_digits)
qed

lemma py_ints_str_int: "py_ints (map str_int shp) = Some shp"
  by (induction shp) (simp_all add: py_int_str_int)

lemma str_int_avoid:
  assumes "\<not> is_digit c" and "c \<noteq> CHR ''-''"
  shows "c \<notin> set (str_int n)"
  using assms by (simp add: str_int_def digits_avoid)

lemma py_join_avoid:
  assumes "c \<notin> set sep" and "\<forall>p \<in> set ps. c \<notin> set p"
  shows "c \<notin> set (py_join sep ps)"
  using assms by (induction sep ps rule: py_join.induct) auto

lemma py_split_join:
  assumes "ps \<noteq> []" and "\<forall>p \<in> set ps. sep \<notin> set p"
  shows "py_split sep (py_join [sep] ps) = ps"
  using assms
proof (induction "[sep]" ps rule: py_join.induct)
  case 1
  then show ?case by simp
next
  case (2 p)
  then show ?case by (simp add: py_split_no_sep)
next
  case (3 p q ps)
  then show ?case by (simp add: py_split_append)
qed

subsection \<open>Writing and parsing the record\<close>

lemma replicate_numeral_unfold: "replicate (numeral k) x = x # replicate (pred_numeral k) x"
  by (simp add: numeral_eq_Suc)

lemma shape_text_avoid:
  assumes "\<not> is_digit c" and "c \<noteq> CHR ''-''" and "c \<noteq> CHR ''x''"
  shows "c \<notin> set (py_join ''x'' (map str_int shp))"
  using assms by (intro py_join_avoid) (auto simp: str_int_avoid)

lemma serialize_fits:
  assumes "length (mat w) = 40" and "0 < sem_value (mat_sem f) w"
    and "length (py_join ''x'' (map str_int shp)) \<le> 20" and "length dt \<le> 19"
  shows "\<exists>w1. serialize f shp dt w = (Inr (), w1)
           \<and> mat w1 = ljust (py_join ''x'' (map str_int shp)) 20 (CHR ''*'') @ ''|''
                        @ ljust dt 19 (CHR ''*'')
           \<and> sem_val w1 = sem_val w"
proof -
  let ?txt = "ljust (py_join ''x'' (map str_int shp)) 20 (CHR ''*'') @ ''|'' @ ljust dt 19 (CHR ''*'')"
  have len: "length ?txt = 40"
    using assms(3,4) by (simp add: length_ljust)
  obtain w0 where a: "sem_acquire (mat_sem f) w = Some w0"
    using assms(2) by (simp add: sem_acquire_def)
  have m: "mat w0 = mat w"
    using a by (simp add: sem_acquire_regions)
  have "serialize f shp dt w = (Inr (), sem_release (mat_sem f) (w0\<lparr>mat := ?txt\<rparr>))"
    using a m assms(1) len
    by (simp add: serialize_def numbers_sum_40 py_index_def Let_def del: append.simps)
  moreover have "sem_val (sem_release (mat_sem f) (w0\<lparr>mat := ?txt\<rparr>)) = sem_val w"
    using a by (auto simp: sem_acquire_def sem_release_def sem_value_def split: if_splits)
  moreover have "mat (sem_release (mat_sem f) (w0\<lparr>mat := ?txt\<rparr>)) = ?txt"
    by (simp add: sem_release_def)
  ultimately show ?thesis
    by blast
qed

lemma deserialize_record:
  assumes "mat w = ljust (py_join ''x'' (map str_int shp)) 20 (CHR ''*'') @ ''|''
                     @ ljust dt 19 (CHR ''*'')"
    and "shp \<noteq> []"
    and "CHR ''*'' \<notin> set dt" and "CHR ''|'' \<notin> set dt"
    and "0 < sem_value (mat_sem g) w"
  shows "fst (deserialize np g w) =
           (case np dt of None \<Rightarrow> Inl (Raised AttributeError) | Some obj \<Rightarrow> Inr (shp, obj))"
    and "fst (snd (deserialize np g w)) =
           (case np dt of None \<Rightarrow> g | Some obj \<Rightarrow> g\<lparr>shape := shp, dtype := obj\<rparr>)"
proof -
  let ?st = "py_join ''x'' (map str_int shp)"
  obtain w0 where a: "sem_acquire (mat_sem g) w = Some w0"
    using assms(5) by (simp add: sem_acquire_def)
  have m: "mat w0 = mat w"
    using a by (simp add: sem_acquire_regions)
  have nostar: "CHR ''*'' \<notin> set ?st"
    by (rule shape_text_avoid) (simp_all add: is_digit_def)
  have nobar: "CHR ''|'' \<notin> set ?st"
    by (rule shape_text_avoid) (simp_all add: is_digit_def)
  have "remove_stars (mat w0) = remove_stars ?st @ remove_stars ''|'' @ remove_stars dt"
    using m assms(1) remove_stars_ljust [of ?st 20] remove_stars_ljust [of dt 19]
    by (simp add: remove_stars_def)
  then have "remove_stars (mat w0) = ?st @ CHR ''|'' # dt"
    using nostar assms(3) by (simp add: remove_stars_id)
  then have sp: "py_split (CHR ''|'') (remove_stars (mat w0)) = [?st, dt]"
    using nobar assms(4) by (simp add: py_split_append py_split_no_sep)
  have "\<forall>p \<in> set (map str_int shp). CHR ''x'' \<notin> set p"
    by (auto simp: str_int_avoid is_digit_def)
  then have "py_split (CHR ''x'') ?st = map str_int shp"
    using assms(2) py_split_join [of "map str_int shp" "CHR ''x''"] by simp
  then have ints: "py_ints (py_split (CHR ''x'') ?st) = Some shp"
    by (simp add: py_ints_str_int)
  show "fst (deserialize np g w) =
           (case np dt of None \<Rightarrow> Inl (Raised AttributeError) | Some obj \<Rightarrow> Inr (shp, obj))"
    using a sp ints by (simp add: deserialize_def split: option.splits)
  show "fst (snd (deserialize np g w)) =
           (case np dt of None \<Rightarrow> g | Some obj \<Rightarrow> g\<lparr>shape := shp, dtype := obj\<rparr>)"
    using a sp ints by (simp add: deserialize_def split: option.splits)
qed

lemma supported_dtypes_facts:
  assumes "dt \<in> set supported_dtypes"
  shows "length dt \<le> 19" and "CHR ''*'' \<notin> set dt" and "CHR ''|'' \<notin> set dt"
    and "\<exists>itemsize. numpy_scalars dt = Some (Scalar_type dt itemsize)"
  using assms by (auto simp: supported_dtypes_def numpy_scalars_def)

text \<open>
  C5, as the code has it. \<^verbatim>\<open>numbers_sum(40, 2)\<close> is \<^verbatim>\<open>[20, 20]\<close>, so for every shape whose
  joined text has at most 20 characters and every supported element type the record is
  exactly 40 bytes: the shape text padded right with \<^verbatim>\<open>*\<close> to width 20, one \<^verbatim>\<open>|\<close>, and
  the name of the element type padded right with \<^verbatim>\<open>*\<close> to width 19.
\<close>

theorem metadata_layout:
  assumes "length (mat w) = 40" and "0 < sem_value (mat_sem f) w"
    and "length (py_join ''x'' (map str_int shp)) \<le> 20"
    and "dt \<in> set supported_dtypes"
  shows "fst (serialize f shp dt w) = Inr ()
         \<and> mat (snd (serialize f shp dt w)) =
             ljust (py_join ''x'' (map str_int shp)) 20 (CHR ''*'') @ ''|''
               @ ljust dt 19 (CHR ''*'')
         \<and> length (mat (snd (serialize f shp dt w))) = 40"
proof -
  have d: "length dt \<le> 19"
    using assms(4) by (rule supported_dtypes_facts)
  from serialize_fits [OF assms(1,2,3) d] obtain w1 where
    w1: "serialize f shp dt w = (Inr (), w1)"
      "mat w1 = ljust (py_join ''x'' (map str_int shp)) 20 (CHR ''*'') @ ''|''
                  @ ljust dt 19 (CHR ''*'')"
    by blast
  have "length (mat w1) = 40"
    using w1(2) assms(3) d by (simp add: length_ljust)
  then show ?thesis
    using w1 by simp
qed

theorem metadata_layout_witness:
  "length (mat t1_world) = 40 \<and> 0 < sem_value (mat_sem t1_pub) t1_world
   \<and> ''int16'' \<in> set supported_dtypes
   \<and> fst (serialize t1_pub [288, 320, 1] ''int16'' t1_world) = Inr ()
   \<and> mat (snd (serialize t1_pub [288, 320, 1] ''int16'' t1_world)) =
       ''288x320x1***********|int16**************''"
proof -
  have h1: "length (mat t1_world) = 40"
    by (simp add: t1_world_def)
  have h2: "0 < sem_value (mat_sem t1_pub) t1_world"
    by (simp add: t1_world_def t1_pub_def sem_value_def)
  have joined: "py_join ''x'' (map str_int [288, 320, 1]) = ''288x320x1''"
    by (simp add: str_int_def digits.simps digit_char_def)
  have h3: "length (py_join ''x'' (map str_int [288, 320, 1])) \<le> 20"
    unfolding joined by simp
  have h4: "''int16'' \<in> set supported_dtypes"
    by (simp add: supported_dtypes_def)
  show ?thesis
    using metadata_layout [OF h1 h2 h3 h4] h1 h2 h4
    unfolding joined by (simp add: ljust_def replicate_numeral_unfold)
qed

text \<open>C5 as stated fails: for shape \<open>(2, 2)\<close> and \<^verbatim>\<open>uint8\<close> the record written is not the
  one with a first half of width 21 and a name padded to width 18.\<close>

theorem metadata_layout_not_21_18:
  "fst (serialize t1_pub [2, 2] ''uint8'' t1_world) = Inr ()
   \<and> mat (snd (serialize t1_pub [2, 2] ''uint8'' t1_world)) =
       ''2x2*****************|uint8**************''
   \<and> mat (snd (serialize t1_pub [2, 2] ''uint8'' t1_world)) \<noteq>
       ljust (py_join ''x'' (map str_int [2, 2])) 21 (CHR ''*'') @ ''|''
         @ ljust ''uint8'' 18 (CHR ''*'')"
  by (simp add: serialize_def sem_acquire_def sem_release_def sem_value_def numbers_sum_40
      py_index_def Let_def t1_world_def t1_pub_def str_int_def digits.simps digit_char_def ljust_def
      replicate_numeral_unfold)

text \<open>
  C2, as the code has it. For every non-empty shape whose joined text has at most 20
  characters (whatever its length, and whatever the sign of its entries) and every
  supported element type, \<^verbatim>\<open>_serialize\<close> returns and \<^verbatim>\<open>_deserialize\<close> then returns
  the shape and the scalar type of that name, and stores both in the reader.
\<close>

theorem metadata_roundtrip:
  assumes "shp \<noteq> []"
    and "length (py_join ''x'' (map str_int shp)) \<le> 20"
    and "dt \<in> set supported_dtypes"
    and "length (mat w) = 40"
    and "0 < sem_value (mat_sem pub) w" and "0 < sem_value (mat_sem sub) w"
  shows "\<exists>w1 itemsize. serialize pub shp dt w = (Inr (), w1)
           \<and> numpy_scalars dt = Some (Scalar_type dt itemsize)
           \<and> fst (deserialize numpy_scalars sub w1) = Inr (shp, Scalar_type dt itemsize)
           \<and> fst (snd (deserialize numpy_scalars sub w1)) =
               sub\<lparr>shape := shp, dtype := Scalar_type dt itemsize\<rparr>"
proof -
  have d: "length dt \<le> 19" "CHR ''*'' \<notin> set dt" "CHR ''|'' \<notin> set dt"
    using assms(3) by (rule supported_dtypes_facts)+
  obtain itemsize where np: "numpy_scalars dt = Some (Scalar_type dt itemsize)"
    using supported_dtypes_facts(4) [OF assms(3)] by blast
  from serialize_fits [OF assms(4,5,2) d(1)] obtain w1 where
    w1: "serialize pub shp dt w = (Inr (), w1)"
      "mat w1 = ljust (py_join ''x'' (map str_int shp)) 20 (CHR ''*'') @ ''|''
                  @ ljust dt 19 (CHR ''*'')"
      "sem_val w1 = sem_val w"
    by blast
  have av: "0 < sem_value (mat_sem sub) w1"
    using assms(6) w1(3) by (simp add: sem_value_def)
  show ?thesis
    using w1(1) np deserialize_record [OF w1(2) assms(1) d(2,3) av, of numpy_scalars]
    by simp
qed

theorem metadata_roundtrip_witness:
  "fst (serialize t1_pub [288, 320, 1] ''int16'' t1_world) = Inr ()
   \<and> fst (deserialize numpy_scalars t1_sub (snd (serialize t1_pub [288, 320, 1] ''int16'' t1_world))) =
       Inr ([288, 320, 1], Scalar_type ''int16'' 2)"
proof -
  have h1: "[288, 320, 1] \<noteq> ([] :: int list)"
    by simp
  have joined: "py_join ''x'' (map str_int [288, 320, 1]) = ''288x320x1''"
    by (simp add: str_int_def digits.simps digit_char_def)
  have h2: "length (py_join ''x'' (map str_int [288, 320, 1])) \<le> 20"
    unfolding joined by simp
  have h3: "''int16'' \<in> set supported_dtypes"
    by (simp add: supported_dtypes_def)
  have h4: "length (mat t1_world) = 40"
    by (simp add: t1_world_def)
  have h5: "0 < sem_value (mat_sem t1_pub) t1_world" "0 < sem_value (mat_sem t1_sub) t1_world"
    by (simp_all add: t1_world_def t1_pub_def t1_sub_def sem_value_def)
  from metadata_roundtrip [OF h1 h2 h3 h4 h5] obtain w1 itemsize where
    r: "serialize t1_pub [288, 320, 1] ''int16'' t1_world = (Inr (), w1)"
      "numpy_scalars ''int16'' = Some (Scalar_type ''int16'' itemsize)"
      "fst (deserialize numpy_scalars t1_sub w1) = Inr ([288, 320, 1], Scalar_type ''int16'' itemsize)"
      "fst (snd (deserialize numpy_scalars t1_sub w1)) =
         t1_sub\<lparr>shape := [288, 320, 1], dtype := Scalar_type ''int16'' itemsize\<rparr>"
    by blast
  have "itemsize = 2"
    using r(2) by (simp add: numpy_scalars_def)
  then show ?thesis
    using r(1,3) by simp
qed

text \<open>C2 as stated fails: the shape \<open>(99999, 99999, 99999, 99999)\<close> has four positive
  entries, its text has 23 characters, and \<^verbatim>\<open>_serialize\<close> raises without writing the
  record, so nothing can be parsed back.\<close>

theorem metadata_roundtrip_long_shape:
  "fst (serialize t1_pub [99999, 99999, 99999, 99999] ''uint8'' t1_world) = Inl (Raised ValueError)
   \<and> mat (snd (serialize t1_pub [99999, 99999, 99999, 99999] ''uint8'' t1_world)) = mat t1_world
   \<and> fst (deserialize numpy_scalars t1_sub
            (snd (serialize t1_pub [99999, 99999, 99999, 99999] ''uint8'' t1_world))) \<noteq>
       Inr ([99999, 99999, 99999, 99999], Scalar_type ''uint8'' 1)"
  by (simp add: serialize_def deserialize_def sem_acquire_def sem_release_def sem_value_def
      numbers_sum_40 py_index_def Let_def t1_world_def t1_pub_def t1_sub_def str_int_def
      digits.simps digit_char_def ljust_def replicate_numeral_unfold)

text \<open>
  C6, as the code has it. For a record written for a name \<open>dt\<close> that fits its half and
  contains neither \<^verbatim>\<open>*\<close> nor \<^verbatim>\<open>|\<close>, \<^verbatim>\<open>_deserialize\<close> returns exactly when \<open>dt\<close> is an
  attribute of the numeric library, whatever that attribute is, and raises
  \<^verbatim>\<open>AttributeError\<close> otherwise.
\<close>

theorem deserialize_dtype_lookup:
  assumes "shp \<noteq> []"
    and "length (py_join ''x'' (map str_int shp)) \<le> 20"
    and "length dt \<le> 19" and "CHR ''*'' \<notin> set dt" and "CHR ''|'' \<notin> set dt"
    and "length (mat w) = 40"
    and "0 < sem_value (mat_sem pub) w" and "0 < sem_value (mat_sem sub) w"
  shows "\<exists>w1. serialize pub shp dt w = (Inr (), w1)
           \<and> fst (deserialize np sub w1) =
               (case np dt of
                  None \<Rightarrow> Inl (Raised AttributeError)
                | Some obj \<Rightarrow> Inr (shp, obj))"
proof -
  from serialize_fits [OF assms(6,7,2,3)] obtain w1 where
    w1: "serialize pub shp dt w = (Inr (), w1)"
      "mat w1 = ljust (py_join ''x'' (map str_int shp)) 20 (CHR ''*'') @ ''|''
                  @ ljust dt 19 (CHR ''*'')"
      "sem_val w1 = sem_val w"
    by blast
  have av: "0 < sem_value (mat_sem sub) w1"
    using assms(8) w1(3) by (simp add: sem_value_def)
  show ?thesis
    using w1(1) deserialize_record(1) [OF w1(2) assms(1,4,5) av, of np]
    by simp
qed

theorem deserialize_dtype_lookup_witness:
  "numpy_scalars ''nothing'' = None
   \<and> fst (serialize t1_pub [2, 2] ''nothing'' t1_world) = Inr ()
   \<and> fst (deserialize numpy_scalars t1_sub (snd (serialize t1_pub [2, 2] ''nothing'' t1_world))) =
       Inl (Raised AttributeError)"
proof -
  have h1: "[2, 2] \<noteq> ([] :: int list)"
    by simp
  have joined: "py_join ''x'' (map str_int [2, 2]) = ''2x2''"
    by (simp add: str_int_def digits.simps digit_char_def)
  have h2: "length (py_join ''x'' (map str_int [2, 2])) \<le> 20"
    unfolding joined by simp
  have h3: "length ''nothing'' \<le> 19" "CHR ''*'' \<notin> set ''nothing''" "CHR ''|'' \<notin> set ''nothing''"
    by simp_all
  have h4: "length (mat t1_world) = 40"
    by (simp add: t1_world_def)
  have h5: "0 < sem_value (mat_sem t1_pub) t1_world" "0 < sem_value (mat_sem t1_sub) t1_world"
    by (simp_all add: t1_world_def t1_pub_def t1_sub_def sem_value_def)
  have none: "numpy_scalars ''nothing'' = None"
    by (simp add: numpy_scalars_def)
  from deserialize_dtype_lookup [OF h1 h2 h3 h4 h5, of numpy_scalars] obtain w1 where
    "serialize t1_pub [2, 2] ''nothing'' t1_world = (Inr (), w1)"
    "fst (deserialize numpy_scalars t1_sub w1) =
       (case numpy_scalars ''nothing'' of
          None \<Rightarrow> Inl (Raised AttributeError)
        | Some obj \<Rightarrow> Inr ([2, 2], obj))"
    by blast
  then show ?thesis
    using none by simp
qed

text \<open>C6 as stated fails: \<^verbatim>\<open>int8\<close> is outside the closed set and a record naming it is
  parsed without error.\<close>

theorem deserialize_accepts_int8:
  "''int8'' \<notin> set supported_dtypes
   \<and> fst (deserialize numpy_scalars t1_sub
            (t1_world\<lparr>mat := ''2x2*****************|int8***************''\<rparr>)) =
       Inr ([2, 2], Scalar_type ''int8'' 1)"
  by (simp add: supported_dtypes_def deserialize_def sem_acquire_def sem_value_def
      t1_world_def t1_sub_def t1_pub_def remove_stars_def py_int_def strip_def is_space_def
      parse_digits_def is_digit_def decimal_def digit_val_def numpy_scalars_def)

end
